theory Spec2Isabelle
  imports Main "HOL-Library.Sublist"
begin

section \<open>The operating-system interface used by the checker\<close>

text \<open>
  The script \<^verbatim>\<open>02a_check_events_01.py\<close> only reads the file system, and only through
  \<^verbatim>\<open>os.path.exists\<close> and \<^verbatim>\<open>glob.glob\<close>. Both are taken as oracles of the
  environment: \<open>stat\<close> answers what \<^verbatim>\<open>os.stat\<close> does on a path (success, "no such
  entry", or any other \<^verbatim>\<open>OSError\<close> such as a permission denial), and \<open>glob\<close> is the
  list \<^verbatim>\<open>glob.glob\<close> returns for a pattern. Nothing is assumed about either: a
  theorem holds for every file-system state that meets the hypotheses it states.
\<close>

datatype stat_result = StatOk | NoEntry | AccessError

record os =
  stat :: "string \<Rightarrow> stat_result"
  glob :: "string \<Rightarrow> string list"

text \<open>
  \<^verbatim>\<open>os.path.exists(path)\<close> calls \<^verbatim>\<open>os.stat\<close> and turns every \<^verbatim>\<open>OSError\<close> into
  \<^verbatim>\<open>False\<close>.
\<close>

definition exists :: "os \<Rightarrow> string \<Rightarrow> bool" where
  "exists os path = (case stat os path of StatOk \<Rightarrow> True | NoEntry \<Rightarrow> False | AccessError \<Rightarrow> False)"

subsection \<open>Path arithmetic (\<^verbatim>\<open>posixpath\<close>)\<close>

text \<open>\<^verbatim>\<open>os.path.join(a, b)\<close> for two components.\<close>

definition join :: "string \<Rightarrow> string \<Rightarrow> string" where
  "join a b =
     (if prefix ''/'' b then b
      else if a = [] \<or> suffix ''/'' a then a @ b
      else a @ ''/'' @ b)"

text \<open>\<^verbatim>\<open>os.path.basename(p)\<close>: what follows the last slash.\<close>

definition basename :: "string \<Rightarrow> string" where
  "basename p = rev (takeWhile (\<lambda>c. c \<noteq> CHR ''/'') (rev p))"

text \<open>
  \<^verbatim>\<open>os.path.dirname(p)\<close>: the part up to and including the last slash, with its
  trailing slashes removed unless it consists of slashes only.
\<close>

definition dirname :: "string \<Rightarrow> string" where
  "dirname p =
     (let head = rev (dropWhile (\<lambda>c. c \<noteq> CHR ''/'') (rev p))
      in if head \<noteq> [] \<and> head \<noteq> replicate (length head) (CHR ''/'')
         then rev (dropWhile (\<lambda>c. c = CHR ''/'') (rev head))
         else head)"

text \<open>The substring test \<^verbatim>\<open>sub in s\<close> on Python strings.\<close>

fun str_in :: "string \<Rightarrow> string \<Rightarrow> bool" where
  "str_in sub [] = (sub = [])"
| "str_in sub (c # cs) = (prefix sub (c # cs) \<or> str_in sub cs)"

subsection \<open>Console output\<close>

text \<open>
  The printed output is a list of lines. The script decorates many lines with one
  emoji; a line is kept as that emoji (if any) and the text of the line without it.
  \<^verbatim>\<open>print("\n" + s)\<close> is the empty line followed by the line \<open>s\<close>.
\<close>

datatype icon = NoIcon | Check | Cross | Warning | Chart | Party

type_synonym line = "icon \<times> string"

definition plain :: "string \<Rightarrow> line" where
  "plain s = (NoIcon, s)"

definition rule60 :: string where
  "rule60 = replicate 60 (CHR ''='')"

definition banner :: "string \<Rightarrow> line list" where
  "banner title = [plain [], plain rule60, plain title, plain rule60]"

text \<open>Decimal rendering of a Python integer, as an f-string does.\<close>

function str_nat :: "nat \<Rightarrow> string" where
  "str_nat n = (if n < 10 then [''0123456789'' ! n] else str_nat (n div 10) @ [''0123456789'' ! (n mod 10)])"
  by pat_completeness auto
termination
  by (relation "measure id") auto

definition str_int :: "int \<Rightarrow> string" where
  "str_int i = (if i < 0 then ''-'' @ str_nat (nat (- i)) else str_nat (nat i))"

definition len :: "'a list \<Rightarrow> int" where
  "len xs = int (length xs)"

section \<open>The per-process check\<close>

definition required_files :: "string list" where
  "required_files = [''unweighted_events.lhe'']"

definition optional_files :: "string list" where
  "optional_files =
     [''unweighted_events.lhe.gz'', ''tag_1_pythia8_events.hepmc.gz'',
      ''tag_1_pythia8_events_delphes.root'']"

text \<open>
  The body of the loop over \<open>run_dirs\<close> in \<^verbatim>\<open>check_required_files_in_directory\<close>:
  the entries it appends to \<open>missing_files\<close> and the lines it prints for one run
  directory.
\<close>

definition check_run :: "os \<Rightarrow> string \<Rightarrow> string list \<times> line list" where
  "check_run os run_dir =
     (let run_name = basename run_dir
      in (concat (map (\<lambda>file_name.
                    if \<not> exists os (join run_dir file_name)
                    then [run_name @ ''/'' @ file_name] else [])
                  required_files),
          concat (map (\<lambda>file_name.
                    if exists os (join run_dir file_name)
                    then [(Check, ''   Optional file found: '' @ run_name @ ''/'' @ file_name)]
                    else [])
                  optional_files)))"

text \<open>The loop itself: \<open>missing_files\<close> and the output grow run by run.\<close>

fun check_runs :: "os \<Rightarrow> string list \<Rightarrow> string list \<Rightarrow> line list \<Rightarrow> string list \<times> line list" where
  "check_runs os [] missing_files out = (missing_files, out)"
| "check_runs os (run_dir # run_dirs) missing_files out =
     (let (missing, printed) = check_run os run_dir
      in check_runs os run_dirs (missing_files @ missing) (out @ printed))"

definition check_required_files_in_directory ::
    "os \<Rightarrow> string \<Rightarrow> string \<Rightarrow> string list \<times> line list" where
  "check_required_files_in_directory os process_dir process_type =
     (let events_dir = join process_dir ''Events''
      in if \<not> exists os events_dir then ([''Events/''], [])
         else let run_dirs = glob os (join events_dir ''run_*'')
              in if run_dirs = [] then ([''Events/run_*''], [])
                 else check_runs os run_dirs [] [])"

section \<open>Discovery of the process directories\<close>

text \<open>
  \<^verbatim>\<open>yaml.safe_load\<close> yields nested dictionaries; the checker subscripts the result
  twice and uses what it finds as a path. The values modelled are the null value,
  strings and mappings (an association list, looked up from the front). Subscripting
  a mapping without the key raises \<^verbatim>\<open>KeyError\<close>, subscripting anything else with a
  string raises \<^verbatim>\<open>TypeError\<close>, and so does \<^verbatim>\<open>os.path.exists\<close> on a value that is
  no path.
\<close>

datatype yaml = YNull | YStr string | YMap "(string \<times> yaml) list"

datatype exn = KeyError | TypeError

fun getitem :: "yaml \<Rightarrow> string \<Rightarrow> exn + yaml" where
  "getitem (YMap kvs) k = (case map_of kvs k of None \<Rightarrow> Inl KeyError | Some v \<Rightarrow> Inr v)"
| "getitem (YStr s) k = Inl TypeError"
| "getitem YNull k = Inl TypeError"

fun as_path :: "yaml \<Rightarrow> exn + string" where
  "as_path (YStr s) = Inr s"
| "as_path (YMap kvs) = Inl TypeError"
| "as_path YNull = Inl TypeError"

definition check_directory_structure :: "os \<Rightarrow> string \<Rightarrow> yaml \<Rightarrow> bool \<times> line list" where
  "check_directory_structure os base_dir workflow =
     (let out0 = [plain rule60, plain ''CHECKING DIRECTORY STRUCTURE'', plain rule60]
      in if \<not> exists os base_dir
         then (False, out0 @ [(Cross, '' Base directory '' @ base_dir @ '' does not exist!'')])
         else
           let out1 = out0 @ [(Check, '' Base directory '' @ base_dir @ '' exists'')];
               mg_processes_dir = join base_dir ''02_mg_processes'';
               mg_processes_2_dir = join base_dir ''02_mg_processes_2''
           in if \<not> exists os mg_processes_dir
              then (False, out1 @ [(Cross, '' 02_mg_processes directory not found: '' @ mg_processes_dir)])
              else
                let out2 = out1 @ [(Check, '' 02_mg_processes directory found: '' @ mg_processes_dir)]
                in if \<not> exists os mg_processes_2_dir
                   then (True, out2 @ [(Warning,
                           ''  02_mg_processes_2 directory not found (no backgrounds yet, this is OK for now): ''
                           @ mg_processes_2_dir)])
                   else (True, out2 @ [(Check, '' 02_mg_processes_2 directory found: '' @ mg_processes_2_dir)]))"

text \<open>
  The loop over \<open>signal_supp_dirs\<close> in \<^verbatim>\<open>check_signal_directories\<close>: every
  \<^verbatim>\<open>signal_supp_*\<close> entry contributes its \<^verbatim>\<open>morphing_basis_vector_*\<close> entries to
  \<open>signal_supp_process_dirs\<close> and one printed line.
\<close>

fun expand_signal_supp :: "os \<Rightarrow> string list \<Rightarrow> string list \<Rightarrow> line list \<Rightarrow> string list \<times> line list" where
  "expand_signal_supp os [] signal_supp_process_dirs out = (signal_supp_process_dirs, out)"
| "expand_signal_supp os (signal_supp_dir # rest) signal_supp_process_dirs out =
     (let morphing_dirs = glob os (join signal_supp_dir ''morphing_basis_vector_*'')
      in expand_signal_supp os rest (signal_supp_process_dirs @ morphing_dirs)
           (out @ [plain (''  '' @ basename signal_supp_dir @ '': Found '' @ str_int (len morphing_dirs)
                          @ '' morphing_basis_vector directories'')]))"

text \<open>
  \<^verbatim>\<open>check_signal_directories\<close> returns \<^verbatim>\<open>False\<close> or the non-empty list of
  directories; \<open>None\<close> stands for \<^verbatim>\<open>False\<close>.
\<close>

definition check_signal_directories :: "os \<Rightarrow> string \<Rightarrow> string list option \<times> line list" where
  "check_signal_directories os mg_processes_dir =
     (let out0 = banner ''CHECKING SIGNAL DIRECTORIES'';
          signal_sm_exact = join mg_processes_dir ''signal_sm'';
          (signal_dirs1, out1) =
             (if exists os signal_sm_exact
              then ([signal_sm_exact], out0 @ [plain ''Found signal_sm directory''])
              else ([], out0));
          signal_sm_dirs = glob os (join mg_processes_dir ''signal_sm_*'');
          signal_dirs2 = signal_dirs1 @ signal_sm_dirs;
          out2 = out1 @ [plain (''Found '' @ str_int (len signal_sm_dirs) @ '' signal_sm_* directories'')];
          signal_supp_dirs = glob os (join mg_processes_dir ''signal_supp_*'');
          out3 = out2 @ [plain (''Found '' @ str_int (len signal_supp_dirs) @ '' signal_supp directories'')];
          (signal_supp_process_dirs, out4) = expand_signal_supp os signal_supp_dirs [] out3;
          signal_dirs = signal_dirs2 @ signal_supp_process_dirs
      in if signal_dirs = []
         then (None, out4 @ [(Cross, '' No signal directories found!'')])
         else (Some signal_dirs,
               out4 @ [(Check, '' Total signal process directories found: '' @ str_int (len signal_dirs))]))"

definition check_background_directories :: "os \<Rightarrow> string \<Rightarrow> string list \<times> line list" where
  "check_background_directories os mg_processes_2_dir =
     (let out0 = banner ''CHECKING BACKGROUND DIRECTORIES''
      in if \<not> exists os mg_processes_2_dir
         then ([], out0 @ [(Warning, ''  Background base directory does not exist yet: '' @ mg_processes_2_dir)])
         else
           let background_dirs = glob os (join mg_processes_2_dir ''background_*'')
           in if background_dirs = []
              then ([], out0 @ [(Warning,
                      ''  No background directories found (this is OK if you haven't generated backgrounds yet)'')])
              else (background_dirs,
                    out0 @ [(Check, '' Found '' @ str_int (len background_dirs) @ '' background directories'')]))"

section \<open>Checking all processes\<close>

record counts =
  total_checked :: int
  total_with_issues :: int

text \<open>What both loops of \<^verbatim>\<open>check_all_processes\<close> do once \<open>missing_files\<close> is known.\<close>

definition report_process :: "string \<Rightarrow> string list \<Rightarrow> counts \<Rightarrow> counts \<times> line list" where
  "report_process process_name missing_files c =
     (if missing_files \<noteq> []
      then (c\<lparr>total_with_issues := total_with_issues c + 1, total_checked := total_checked c + 1\<rparr>,
            (Cross, '' '' @ process_name @ '': Missing files:'')
            # map (\<lambda>missing_file. plain (''    - '' @ missing_file)) missing_files)
      else (c\<lparr>total_checked := total_checked c + 1\<rparr>,
            [(Check, '' '' @ process_name @ '': All required files present'')]))"

text \<open>The display name the signal loop computes for a directory.\<close>

definition signal_process_name :: "string \<Rightarrow> string" where
  "signal_process_name signal_dir =
     (if str_in ''morphing_basis_vector'' signal_dir
      then basename (dirname signal_dir) @ ''/'' @ basename signal_dir
      else basename signal_dir)"

fun check_signal_loop :: "os \<Rightarrow> string list \<Rightarrow> counts \<Rightarrow> line list \<Rightarrow> counts \<times> line list" where
  "check_signal_loop os [] c out = (c, out)"
| "check_signal_loop os (signal_dir # rest) c out =
     (let process_name = signal_process_name signal_dir;
          (missing_files, printed) = check_required_files_in_directory os signal_dir ''signal'';
          (c', reported) = report_process process_name missing_files c
      in check_signal_loop os rest c' (out @ printed @ reported))"

fun check_background_loop :: "os \<Rightarrow> string list \<Rightarrow> counts \<Rightarrow> line list \<Rightarrow> counts \<times> line list" where
  "check_background_loop os [] c out = (c, out)"
| "check_background_loop os (background_dir # rest) c out =
     (let process_name = basename background_dir;
          (missing_files, printed) = check_required_files_in_directory os background_dir ''background'';
          (c', reported) = report_process process_name missing_files c
      in check_background_loop os rest c' (out @ printed @ reported))"

definition check_all_processes :: "os \<Rightarrow> string list \<Rightarrow> string list \<Rightarrow> bool \<times> line list" where
  "check_all_processes os signal_dirs background_dirs =
     (let out0 = banner ''CHECKING REQUIRED FILES IN ALL PROCESSES''
                 @ [plain [], plain ''Checking signal directories...''];
          (c1, out1) = check_signal_loop os signal_dirs \<lparr>total_checked = 0, total_with_issues = 0\<rparr> out0;
          (c2, out2) = check_background_loop os background_dirs c1
                         (out1 @ [plain [], plain ''Checking background directories...''])
      in (total_with_issues c2 = 0,
          out2 @ [plain [], (Chart, '' SUMMARY:''),
                  plain (''   Total processes checked: '' @ str_int (total_checked c2)),
                  plain (''   Processes with issues: '' @ str_int (total_with_issues c2)),
                  plain (''   Processes OK: '' @ str_int (total_checked c2 - total_with_issues c2))]))"

section \<open>The structure the downstream stage expects\<close>

text \<open>The body of the loop over \<open>expected_processes\<close>: what is printed for one name.\<close>

definition check_expected_process :: "os \<Rightarrow> string \<Rightarrow> string \<Rightarrow> line list" where
  "check_expected_process os input_dir_prefix process =
     (let process_dir = join input_dir_prefix process
      in if exists os process_dir
         then (Check, '' Found '' @ process @ '' directory: '' @ process_dir)
              # (if process = ''signal_supp''
                 then let mb_vector_dirs = glob os (join process_dir ''mb_vector_*'')
                      in if mb_vector_dirs \<noteq> []
                         then plain (''  Found '' @ str_int (len mb_vector_dirs) @ '' mb_vector_* subdirectories'')
                              # map (\<lambda>mb_dir. plain (''    - '' @ basename mb_dir)) (take 5 mb_vector_dirs)
                              @ (if len mb_vector_dirs > 5
                                 then [plain (''    ... and '' @ str_int (len mb_vector_dirs - 5) @ '' more'')]
                                 else [])
                         else [(Warning, ''    No mb_vector_* subdirectories found in '' @ process)]
                 else [])
         else [(Warning, ''  '' @ process @ '' directory not found: '' @ process_dir)])"

definition expected_processes :: "string list" where
  "expected_processes = [''signal_sm'', ''signal_supp'', ''background'']"

definition check_expected_structure_for_delphes :: "os \<Rightarrow> yaml \<Rightarrow> (exn + bool) \<times> line list" where
  "check_expected_structure_for_delphes os workflow =
     (let out0 = banner ''CHECKING EXPECTED STRUCTURE FOR DELPHES SCRIPT''
      in case getitem workflow ''delphes'' of
           Inl e \<Rightarrow> (Inl e, out0)
         | Inr delphes \<Rightarrow>
            (case getitem delphes ''input_dir_prefix'' of
               Inl e \<Rightarrow> (Inl e, out0)
             | Inr v \<Rightarrow>
                (case as_path v of
                   Inl e \<Rightarrow> (Inl e, out0)
                 | Inr input_dir_prefix \<Rightarrow>
                     if \<not> exists os input_dir_prefix
                     then (Inr False,
                           out0 @ [(Cross, '' Expected input directory does not exist: '' @ input_dir_prefix)])
                     else (Inr True,
                           out0 @ [(Check, '' Input directory exists: '' @ input_dir_prefix)]
                           @ concat (map (check_expected_process os input_dir_prefix) expected_processes)))))"

section \<open>The program\<close>

text \<open>
  \<open>main\<close> takes the parsed \<^verbatim>\<open>--base-dir\<close> argument and the outcome of
  \<^verbatim>\<open>load_workflow_config()\<close>: \<open>Inl msg\<close> when loading raised an exception with
  message \<open>msg\<close>, \<open>Inr workflow\<close> otherwise. It yields the value \<^verbatim>\<open>main()\<close> returns,
  or the exception that escapes it, and everything printed up to that point. The test
  \<^verbatim>\<open>if not signal_dirs\<close> holds for \<^verbatim>\<open>False\<close> and for the empty list.
  \<^verbatim>\<open>load_workflow_config()\<close> takes no argument and always opens \<^verbatim>\<open>workflow.yaml\<close>:
  the parsed \<^verbatim>\<open>--workflow\<close> argument is never read, so it is no parameter of \<open>main\<close>.
\<close>

definition main :: "os \<Rightarrow> string \<Rightarrow> string + yaml \<Rightarrow> (exn + int) \<times> line list" where
  "main os base_dir loaded =
     (case loaded of
        Inl e \<Rightarrow> (Inr 1, [(Cross, '' Failed to load workflow configuration: '' @ e)])
      | Inr workflow \<Rightarrow>
         let out0 = [(Check, '' Workflow configuration loaded successfully'')];
             (structure_ok, out1) = check_directory_structure os base_dir workflow
         in if \<not> structure_ok
            then (Inr 1, out0 @ out1 @ [plain [], (Cross, '' Directory structure check failed!'')])
            else
              let (found, out2) = check_signal_directories os (join base_dir ''02_mg_processes'');
                  no_signal = (Inr 1, out0 @ out1 @ out2
                                      @ [plain [], (Cross, '' No signal directories found!'')])
              in (case found of
                    None \<Rightarrow> no_signal
                  | Some signal_dirs \<Rightarrow>
                      if signal_dirs = [] then no_signal
                      else
                        let (background_dirs, out3) =
                               check_background_directories os (join base_dir ''02_mg_processes_2'');
                            (all_files_ok, out4) = check_all_processes os signal_dirs background_dirs;
                            (delphes_structure_ok, out5) = check_expected_structure_for_delphes os workflow;
                            out = out0 @ out1 @ out2 @ out3 @ out4 @ out5
                        in (case delphes_structure_ok of
                              Inl e \<Rightarrow> (Inl e, out)
                            | Inr ok \<Rightarrow>
                                let out6 = out @ [plain [], plain rule60, plain ''FINAL SUMMARY'',
                                                  plain rule60]
                                in if all_files_ok \<and> ok
                                   then (Inr 0, out6 @ [(Party,
                                          '' All checks passed! The event generation directory is ready for processing.'')])
                                   else (Inr 1, out6 @ [(Warning,
                                          ''  Some issues were found. Please check the output above.'')]))))"

text \<open>
  The exit status of the process: \<^verbatim>\<open>exit(main())\<close> exits with the returned integer, and
  an exception that escapes \<open>main\<close> ends the interpreter with status 1.
\<close>

definition exit_status :: "(exn + int) \<Rightarrow> int" where
  "exit_status r = (case r of Inl e \<Rightarrow> 1 | Inr code \<Rightarrow> code)"

section \<open>Auxiliary notions\<close>

text \<open>
  What \<open>join a n\<close> puts in front of a component \<open>n\<close> that does not start with a
  slash.
\<close>

definition join_stem :: "string \<Rightarrow> string" where
  "join_stem a = (if a = [] \<or> suffix ''/'' a then a else a @ ''/'')"

text \<open>
  \<open>glob_entries os d pre\<close>: every path that \<open>glob\<close> returns for the pattern
  \<open>pre*\<close> inside \<open>d\<close> is \<open>d\<close> joined with one entry name that starts with \<open>pre\<close>
  and contains no slash. This is what \<^verbatim>\<open>glob.glob\<close> answers for a directory whose
  own path has no wildcard characters.
\<close>

definition glob_entries :: "os \<Rightarrow> string \<Rightarrow> string \<Rightarrow> bool" where
  "glob_entries os d pre \<longleftrightarrow>
     (\<forall>p \<in> set (glob os (join d (pre @ ''*''))).
        \<exists>n. p = join d n \<and> prefix pre n \<and> CHR ''/'' \<notin> set n)"

text \<open>
  Two file-system states give the same answers when \<open>glob\<close> agrees on every pattern
  and \<open>exists\<close> agrees on every path.
\<close>

definition same_answers :: "os \<Rightarrow> os \<Rightarrow> bool" where
  "same_answers os1 os2 \<longleftrightarrow> glob os1 = glob os2 \<and> (\<forall>p. exists os1 p = exists os2 p)"

subsection \<open>Example file systems\<close>

text \<open>
  A file-system state given by the paths that exist, the paths on which
  \<^verbatim>\<open>os.stat\<close> fails with an error other than non-existence, and the answers of
  \<^verbatim>\<open>glob.glob\<close> (no match where nothing is listed).
\<close>

definition example_os :: "string list \<Rightarrow> string list \<Rightarrow> (string \<times> string list) list \<Rightarrow> os" where
  "example_os present denied listing =
     \<lparr>stat = (\<lambda>p. if p \<in> set present then StatOk
                  else if p \<in> set denied then AccessError else NoEntry),
      glob = (\<lambda>pattern. case map_of listing pattern of None \<Rightarrow> [] | Some paths \<Rightarrow> paths)\<rparr>"

text \<open>A signal process directory without \<open>Events\<close>.\<close>

definition os_no_events :: os where
  "os_no_events =
     example_os [''.'', ''./02_mg_processes'', ''./02_mg_processes/signal_sm'', ''out''] [] []"

text \<open>The same with an \<open>Events\<close> directory that holds no run.\<close>

definition os_no_runs :: os where
  "os_no_runs =
     example_os [''.'', ''./02_mg_processes'', ''./02_mg_processes/signal_sm'',
                 ''./02_mg_processes/signal_sm/Events'', ''out''] [] []"

text \<open>
  A process directory \<open>p\<close> with two runs, neither with \<open>unweighted_events.lhe\<close>, the
  second with one optional file; and the same without the optional file.
\<close>

definition os_two_runs :: os where
  "os_two_runs =
     example_os [''p/Events'', ''p/Events/run_01'', ''p/Events/run_02'',
                 ''p/Events/run_02/unweighted_events.lhe.gz''] []
       [(''p/Events/run_*'', [''p/Events/run_01'', ''p/Events/run_02''])]"

definition os_two_runs_bare :: os where
  "os_two_runs_bare =
     example_os [''p/Events'', ''p/Events/run_01'', ''p/Events/run_02''] []
       [(''p/Events/run_*'', [''p/Events/run_01'', ''p/Events/run_02''])]"

text \<open>A signal root with one \<open>signal_supp_*\<close> directory that has two basis vectors.\<close>

definition os_supp :: os where
  "os_supp =
     example_os [''.'', ''./02_mg_processes'', ''./02_mg_processes/signal_supp_A'',
                 ''./02_mg_processes/signal_supp_A/morphing_basis_vector_1'',
                 ''./02_mg_processes/signal_supp_A/morphing_basis_vector_2''] []
       [(''./02_mg_processes/signal_supp_*'', [''./02_mg_processes/signal_supp_A'']),
        (''./02_mg_processes/signal_supp_A/morphing_basis_vector_*'',
           [''./02_mg_processes/signal_supp_A/morphing_basis_vector_1'',
            ''./02_mg_processes/signal_supp_A/morphing_basis_vector_2''])]"

text \<open>A configuration that names \<open>out\<close> as the downstream input root.\<close>

definition workflow_ok :: yaml where
  "workflow_ok = YMap [(''delphes'', YMap [(''input_dir_prefix'', YStr ''out'')])]"

text \<open>
  One complete signal process and no background root; and the same with a background
  root that holds one complete background process.
\<close>

definition os_signal_only :: os where
  "os_signal_only =
     example_os [''.'', ''./02_mg_processes'', ''./02_mg_processes/signal_sm'',
                 ''./02_mg_processes/signal_sm/Events'',
                 ''./02_mg_processes/signal_sm/Events/run_01'',
                 ''./02_mg_processes/signal_sm/Events/run_01/unweighted_events.lhe'',
                 ''out''] []
       [(''./02_mg_processes/signal_sm/Events/run_*'', [''./02_mg_processes/signal_sm/Events/run_01''])]"

definition os_pass :: os where
  "os_pass =
     example_os [''.'', ''./02_mg_processes'', ''./02_mg_processes/signal_sm'',
                 ''./02_mg_processes/signal_sm/Events'',
                 ''./02_mg_processes/signal_sm/Events/run_01'',
                 ''./02_mg_processes/signal_sm/Events/run_01/unweighted_events.lhe'',
                 ''./02_mg_processes_2'', ''./02_mg_processes_2/background_tt'',
                 ''./02_mg_processes_2/background_tt/Events'',
                 ''./02_mg_processes_2/background_tt/Events/run_01'',
                 ''./02_mg_processes_2/background_tt/Events/run_01/unweighted_events.lhe'',
                 ''out''] []
       [(''./02_mg_processes/signal_sm/Events/run_*'', [''./02_mg_processes/signal_sm/Events/run_01'']),
        (''./02_mg_processes_2/background_*'', [''./02_mg_processes_2/background_tt'']),
        (''./02_mg_processes_2/background_tt/Events/run_*'',
           [''./02_mg_processes_2/background_tt/Events/run_01''])]"

text \<open>
  A base directory without the signal root; and one whose signal root is empty.
\<close>

definition os_bare :: os where
  "os_bare = example_os [''.'', ''out''] [] []"

definition os_empty_root :: os where
  "os_empty_root = example_os [''.'', ''./02_mg_processes'', ''out''] [] []"

text \<open>A signal process directory whose \<open>Events\<close> entry cannot be accessed.\<close>

definition os_denied :: os where
  "os_denied =
     example_os [''.'', ''./02_mg_processes'', ''./02_mg_processes/signal_sm'', ''out'']
       [''./02_mg_processes/signal_sm/Events''] []"

text \<open>
  A signal process directory with one run whose \<open>unweighted_events.lhe\<close> cannot be
  accessed, next to a complete background process; and the same tree with that file
  absent.
\<close>

definition os_denied_file :: os where
  "os_denied_file =
     example_os [''.'', ''./02_mg_processes'', ''./02_mg_processes/signal_sm'',
                 ''./02_mg_processes/signal_sm/Events'',
                 ''./02_mg_processes/signal_sm/Events/run_01'',
                 ''./02_mg_processes_2'', ''./02_mg_processes_2/background_tt'',
                 ''./02_mg_processes_2/background_tt/Events'',
                 ''./02_mg_processes_2/background_tt/Events/run_01'',
                 ''./02_mg_processes_2/background_tt/Events/run_01/unweighted_events.lhe'',
                 ''out'']
       [''./02_mg_processes/signal_sm/Events/run_01/unweighted_events.lhe'']
       [(''./02_mg_processes/signal_sm/Events/run_*'', [''./02_mg_processes/signal_sm/Events/run_01'']),
        (''./02_mg_processes_2/background_*'', [''./02_mg_processes_2/background_tt'']),
        (''./02_mg_processes_2/background_tt/Events/run_*'',
           [''./02_mg_processes_2/background_tt/Events/run_01''])]"

definition os_absent_file :: os where
  "os_absent_file =
     example_os [''.'', ''./02_mg_processes'', ''./02_mg_processes/signal_sm'',
                 ''./02_mg_processes/signal_sm/Events'',
                 ''./02_mg_processes/signal_sm/Events/run_01'',
                 ''./02_mg_processes_2'', ''./02_mg_processes_2/background_tt'',
                 ''./02_mg_processes_2/background_tt/Events'',
                 ''./02_mg_processes_2/background_tt/Events/run_01'',
                 ''./02_mg_processes_2/background_tt/Events/run_01/unweighted_events.lhe'',
                 ''out'']
       []
       [(''./02_mg_processes/signal_sm/Events/run_*'', [''./02_mg_processes/signal_sm/Events/run_01'']),
        (''./02_mg_processes_2/background_*'', [''./02_mg_processes_2/background_tt'']),
        (''./02_mg_processes_2/background_tt/Events/run_*'',
           [''./02_mg_processes_2/background_tt/Events/run_01''])]"

text \<open>A base directory whose signal root and background root cannot be accessed.\<close>

definition os_denied_roots :: os where
  "os_denied_roots =
     example_os [''.'', ''out'']
       [''./02_mg_processes'', ''./02_mg_processes_2'', ''r/unweighted_events.lhe.gz''] []"

section \<open>Facts about paths\<close>

lemma prefix_slash_iff: "prefix ''/'' b \<longleftrightarrow> b \<noteq> [] \<and> hd b = CHR ''/''"
  by (cases b) auto

lemma suffix_slash_iff: "suffix ''/'' a \<longleftrightarrow> a \<noteq> [] \<and> last a = CHR ''/''"
  by (cases a rule: rev_cases) auto

lemma join_name: "CHR ''/'' \<notin> set n \<Longrightarrow> join a n = join_stem a @ n"
  by (cases n) (auto simp add: join_def join_stem_def)

lemma join_stem_shape: "join_stem a = [] \<or> last (join_stem a) = CHR ''/''"
  by (auto simp add: join_stem_def suffix_slash_iff)

lemma basename_append:
  "CHR ''/'' \<notin> set n \<Longrightarrow> x = [] \<or> last x = CHR ''/'' \<Longrightarrow> basename (x @ n) = n"
proof -
  assume n: "CHR ''/'' \<notin> set n" and x: "x = [] \<or> last x = CHR ''/''"
  have all: "takeWhile (\<lambda>c. c \<noteq> CHR ''/'') (rev n) = rev n"
    using n by auto
  have "takeWhile (\<lambda>c. c \<noteq> CHR ''/'') (rev x) = []"
    using x by (cases x rule: rev_cases) simp_all
  then have "takeWhile (\<lambda>c. c \<noteq> CHR ''/'') (rev n @ rev x) = rev n"
    using n by (simp add: takeWhile_append)
  then show ?thesis
    by (simp add: basename_def)
qed

lemma basename_join: "CHR ''/'' \<notin> set n \<Longrightarrow> basename (join a n) = n"
  using join_stem_shape [of a] by (simp add: join_name basename_append)

lemma last_join: "b \<noteq> [] \<Longrightarrow> \<not> prefix ''/'' b \<Longrightarrow> last (join a b) = last b"
  by (simp add: join_def)

lemma join_inject: "CHR ''/'' \<notin> set n \<Longrightarrow> CHR ''/'' \<notin> set n' \<Longrightarrow> join a n = join a n' \<longleftrightarrow> n = n'"
  by (simp add: join_name)

lemma dirname_join:
  assumes "CHR ''/'' \<notin> set n" and "a \<noteq> []" and "last a \<noteq> CHR ''/''"
  shows "dirname (join a n) = a"
proof -
  have j: "join a n = a @ ''/'' @ n"
    using assms by (simp add: join_name join_stem_def suffix_slash_iff)
  have d: "dropWhile (\<lambda>c. c \<noteq> CHR ''/'') (rev n @ CHR ''/'' # rev a) = CHR ''/'' # rev a"
    using assms(1) by (simp add: dropWhile_append)
  have "last a \<in> set a"
    using assms(2) by simp
  then have "a \<noteq> replicate (length a) (CHR ''/'')"
    using assms(3) by (metis in_set_replicate)
  moreover have "replicate (Suc (length a)) (CHR ''/'') = replicate (length a) (CHR ''/'') @ ''/''"
    by (simp add: replicate_append_same)
  ultimately have nr: "a @ ''/'' \<noteq> replicate (Suc (length a)) (CHR ''/'')"
    by (simp del: replicate_Suc)
  have dw: "dropWhile (\<lambda>c. c = CHR ''/'') (rev a) = rev a"
    using assms(2,3) by (cases a rule: rev_cases) simp_all
  show ?thesis
    using nr by (simp add: dirname_def j d dw Let_def)
qed

lemma str_in_append: "prefix sub t \<Longrightarrow> str_in sub (p @ t)"
proof (induction p)
  case Nil
  then show ?case by (cases t) (simp_all)
next
  case (Cons c p)
  then show ?case by simp
qed

lemma last_join_name: "n \<noteq> [] \<Longrightarrow> CHR ''/'' \<notin> set n \<Longrightarrow> last (join a n) \<noteq> CHR ''/'' \<and> join a n \<noteq> []"
  by (cases n rule: rev_cases) (auto simp add: join_name)

lemma signal_process_name_morphing:
  assumes n: "n \<noteq> []" "CHR ''/'' \<notin> set n"
    and m: "prefix ''morphing_basis_vector_'' m" "CHR ''/'' \<notin> set m"
  shows "signal_process_name (join (join mg n) m) = n @ ''/'' @ m"
proof -
  have "prefix ''morphing_basis_vector'' m"
    using m(1) by (auto simp add: prefix_def)
  then have "str_in ''morphing_basis_vector'' (join (join mg n) m)"
    using m(2) by (simp add: join_name [of m] str_in_append)
  moreover have "basename (join (join mg n) m) = m"
    using m(2) by (rule basename_join)
  moreover have "dirname (join (join mg n) m) = join mg n"
    using m(2) last_join_name [OF n, of mg] by (simp add: dirname_join)
  moreover have "basename (join mg n) = n"
    using n(2) by (rule basename_join)
  ultimately show ?thesis
    by (simp add: signal_process_name_def)
qed


lemma last_join_events: "last (join d ''Events'') = CHR ''s''"
  using last_join [of "''Events''" d] by simp

lemma last_join_required: "last (join r ''unweighted_events.lhe'') = CHR ''e''"
  using last_join [of "''unweighted_events.lhe''" r] by simp

lemma last_join_optional: "f \<in> set optional_files \<Longrightarrow> last (join r f) \<in> {CHR ''z'', CHR ''t''}"
  using last_join [of f r] by (auto simp add: optional_files_def)

section \<open>Facts about the loops\<close>

lemma exists_iff: "exists os p \<longleftrightarrow> stat os p = StatOk"
  by (simp add: exists_def split: stat_result.splits)

lemma check_runs_acc:
  "check_runs os rs m out =
     (m @ concat (map (\<lambda>r. fst (check_run os r)) rs),
      out @ concat (map (\<lambda>r. snd (check_run os r)) rs))"
  by (induction rs arbitrary: m out) (simp_all add: case_prod_beta)

lemma fst_check_run:
  "fst (check_run os r) =
     (if exists os (join r ''unweighted_events.lhe'') then []
      else [basename r @ ''/unweighted_events.lhe''])"
  by (simp add: check_run_def required_files_def Let_def)

lemma expand_signal_supp_acc:
  "fst (expand_signal_supp os ds acc out) =
     acc @ concat (map (\<lambda>d. glob os (join d ''morphing_basis_vector_*'')) ds)"
  by (induction ds arbitrary: acc out) (simp_all add: Let_def)

lemma report_process_counts:
  "fst (report_process n m c) =
     \<lparr>total_checked = total_checked c + 1,
      total_with_issues = total_with_issues c + (if m = [] then 0 else 1)\<rparr>"
  by (simp add: report_process_def)

lemma check_signal_loop_counts:
  "fst (check_signal_loop os ds c out) =
     \<lparr>total_checked = total_checked c + int (length ds),
      total_with_issues = total_with_issues c
        + int (length (filter (\<lambda>d. fst (check_required_files_in_directory os d ''signal'') \<noteq> []) ds))\<rparr>"
proof (induction ds arbitrary: c out)
  case Nil
  show ?case by simp
next
  case (Cons d ds)
  show ?case
    by (simp add: Let_def case_prod_beta Cons.IH report_process_counts)
qed

lemma check_background_loop_counts:
  "fst (check_background_loop os ds c out) =
     \<lparr>total_checked = total_checked c + int (length ds),
      total_with_issues = total_with_issues c
        + int (length (filter (\<lambda>d. fst (check_required_files_in_directory os d ''background'') \<noteq> []) ds))\<rparr>"
proof (induction ds arbitrary: c out)
  case Nil
  show ?case by simp
next
  case (Cons d ds)
  show ?case
    by (simp add: Let_def case_prod_beta Cons.IH report_process_counts)
qed

lemma check_all_processes_verdict:
  "fst (check_all_processes os signal_dirs background_dirs) \<longleftrightarrow>
     (\<forall>d \<in> set signal_dirs. fst (check_required_files_in_directory os d ''signal'') = [])
     \<and> (\<forall>d \<in> set background_dirs. fst (check_required_files_in_directory os d ''background'') = [])"
proof -
  let ?bad = "\<lambda>t ds. length (filter (\<lambda>d. fst (check_required_files_in_directory os d t) \<noteq> []) ds)"
  have "fst (check_all_processes os signal_dirs background_dirs) \<longleftrightarrow>
          int (?bad ''signal'' signal_dirs) + int (?bad ''background'' background_dirs) = 0"
    by (simp add: check_all_processes_def Let_def case_prod_beta
          check_signal_loop_counts check_background_loop_counts)
  also have "\<dots> \<longleftrightarrow> ?bad ''signal'' signal_dirs = 0 \<and> ?bad ''background'' background_dirs = 0"
    by linarith
  also have "\<dots> \<longleftrightarrow>
     (\<forall>d \<in> set signal_dirs. fst (check_required_files_in_directory os d ''signal'') = [])
     \<and> (\<forall>d \<in> set background_dirs. fst (check_required_files_in_directory os d ''background'') = [])"
    by (simp add: filter_empty_conv)
  finally show ?thesis .
qed

lemma fst_check_required:
  "fst (check_required_files_in_directory os d t) =
     (if \<not> exists os (join d ''Events'') then [''Events/'']
      else if glob os (join (join d ''Events'') ''run_*'') = [] then [''Events/run_*'']
      else concat (map (\<lambda>r. fst (check_run os r)) (glob os (join (join d ''Events'') ''run_*''))))"
  by (simp add: check_required_files_in_directory_def Let_def check_runs_acc)

lemma snd_check_required:
  "snd (check_required_files_in_directory os d t) =
     (if \<not> exists os (join d ''Events'') then []
      else if glob os (join (join d ''Events'') ''run_*'') = [] then []
      else concat (map (\<lambda>r. snd (check_run os r)) (glob os (join (join d ''Events'') ''run_*''))))"
  by (simp add: check_required_files_in_directory_def Let_def check_runs_acc)

lemma set_fst_check_required:
  "x \<in> set (fst (check_required_files_in_directory os d t)) \<Longrightarrow>
     x = ''Events/'' \<or> x = ''Events/run_*''
     \<or> (\<exists>r \<in> set (glob os (join (join d ''Events'') ''run_*'')). x = basename r @ ''/unweighted_events.lhe'')"
  by (auto simp add: fst_check_required fst_check_run split: if_splits)

lemma set_snd_check_required:
  "l \<in> set (snd (check_required_files_in_directory os d t)) \<Longrightarrow>
     \<exists>r \<in> set (glob os (join (join d ''Events'') ''run_*'')). \<exists>f \<in> set optional_files.
        exists os (join r f) \<and> l = (Check, ''   Optional file found: '' @ basename r @ ''/'' @ f)"
  by (auto simp add: snd_check_required check_run_def Let_def split: if_splits)

lemmas example_simps = example_os_def exists_def join_def basename_def suffix_slash_iff

lemma fst_check_signal_directories:
  "fst (check_signal_directories os mg) =
     (let signal_dirs =
            (if exists os (join mg ''signal_sm'') then [join mg ''signal_sm''] else [])
            @ glob os (join mg ''signal_sm_*'')
            @ concat (map (\<lambda>s. glob os (join s ''morphing_basis_vector_*''))
                          (glob os (join mg ''signal_supp_*'')))
      in if signal_dirs = [] then None else Some signal_dirs)"
  by (simp add: check_signal_directories_def Let_def case_prod_beta expand_signal_supp_acc)

lemma glob_entriesD:
  "glob_entries os d pre \<Longrightarrow> p \<in> set (glob os (join d (pre @ ''*''))) \<Longrightarrow>
     \<exists>n. p = join d n \<and> prefix pre n \<and> CHR ''/'' \<notin> set n"
  by (simp add: glob_entries_def)

lemma not_prefix_supp_sm: "prefix ''signal_supp_'' n \<Longrightarrow> \<not> prefix ''signal_sm_'' n \<and> n \<noteq> ''signal_sm'' \<and> n \<noteq> []"
  by (auto simp add: prefix_def)

lemma join_join_neq:
  assumes "CHR ''/'' \<notin> set n" "CHR ''/'' \<notin> set n'" "n' \<noteq> []" "CHR ''/'' \<notin> set m"
  shows "join (join a n') m \<noteq> join a n"
proof
  assume eq: "join (join a n') m = join a n"
  have "join (join a n') m = join_stem a @ n' @ ''/'' @ m"
    using assms last_join_name [of n' a]
    by (simp add: join_name [of m] join_name [of n'] join_stem_def [of "join_stem a @ n'"] suffix_slash_iff)
  with eq have "n = n' @ ''/'' @ m"
    using assms(1) by (simp add: join_name)
  with assms(1) show False
    by simp
qed

lemma check_signal_loop_keeps: "set out \<subseteq> set (snd (check_signal_loop os ds c out))"
proof (induction ds arbitrary: c out)
  case Nil
  show ?case by simp
next
  case (Cons d ds)
  let ?m = "fst (check_required_files_in_directory os d ''signal'')"
  let ?out = "out @ snd (check_required_files_in_directory os d ''signal'')
               @ snd (report_process (signal_process_name d) ?m c)"
  let ?c = "fst (report_process (signal_process_name d) ?m c)"
  have step: "check_signal_loop os (d # ds) c out = check_signal_loop os ds ?c ?out"
    by (simp add: Let_def case_prod_beta)
  have "set ?out \<subseteq> set (snd (check_signal_loop os ds ?c ?out))"
    by (rule Cons.IH)
  then show ?case
    unfolding step by auto
qed

lemma check_background_loop_keeps: "set out \<subseteq> set (snd (check_background_loop os ds c out))"
proof (induction ds arbitrary: c out)
  case Nil
  show ?case by simp
next
  case (Cons d ds)
  let ?m = "fst (check_required_files_in_directory os d ''background'')"
  let ?out = "out @ snd (check_required_files_in_directory os d ''background'')
               @ snd (report_process (basename d) ?m c)"
  let ?c = "fst (report_process (basename d) ?m c)"
  have step: "check_background_loop os (d # ds) c out = check_background_loop os ds ?c ?out"
    by (simp add: Let_def case_prod_beta)
  have "set ?out \<subseteq> set (snd (check_background_loop os ds ?c ?out))"
    by (rule Cons.IH)
  then show ?case
    unfolding step by auto
qed

lemma report_process_names:
  "(Cross, '' '' @ name @ '': Missing files:'') \<in> set (snd (report_process name missing c))
   \<or> (Check, '' '' @ name @ '': All required files present'') \<in> set (snd (report_process name missing c))"
  by (simp add: report_process_def)

lemma check_signal_loop_names:
  "d \<in> set ds \<Longrightarrow>
     (Cross, '' '' @ signal_process_name d @ '': Missing files:'') \<in> set (snd (check_signal_loop os ds c out))
     \<or> (Check, '' '' @ signal_process_name d @ '': All required files present'')
          \<in> set (snd (check_signal_loop os ds c out))"
proof (induction ds arbitrary: c out)
  case Nil
  then show ?case by simp
next
  case (Cons e ds)
  let ?m = "fst (check_required_files_in_directory os e ''signal'')"
  let ?out = "out @ snd (check_required_files_in_directory os e ''signal'')
               @ snd (report_process (signal_process_name e) ?m c)"
  let ?c = "fst (report_process (signal_process_name e) ?m c)"
  have step: "check_signal_loop os (e # ds) c out = check_signal_loop os ds ?c ?out"
    by (simp add: Let_def case_prod_beta)
  show ?case
  proof (cases "d = e")
    case True
    have "set (snd (report_process (signal_process_name e) ?m c)) \<subseteq> set (snd (check_signal_loop os ds ?c ?out))"
      using check_signal_loop_keeps [of ?out os ds ?c] by auto
    then show ?thesis
      using report_process_names [of "signal_process_name e" ?m c] True step by auto
  next
    case False
    with Cons.prems have "d \<in> set ds" by simp
    then show ?thesis
      using Cons.IH [of ?c ?out] step by simp
  qed
qed

lemma check_all_processes_names:
  assumes "d \<in> set signal_dirs"
  shows "(Cross, '' '' @ signal_process_name d @ '': Missing files:'')
           \<in> set (snd (check_all_processes os signal_dirs background_dirs))
     \<or> (Check, '' '' @ signal_process_name d @ '': All required files present'')
           \<in> set (snd (check_all_processes os signal_dirs background_dirs))"
proof -
  let ?out0 = "banner ''CHECKING REQUIRED FILES IN ALL PROCESSES''
                 @ [plain [], plain ''Checking signal directories...'']"
  let ?c0 = "\<lparr>total_checked = 0, total_with_issues = 0\<rparr>"
  let ?s = "check_signal_loop os signal_dirs ?c0 ?out0"
  let ?b = "check_background_loop os background_dirs (fst ?s)
              (snd ?s @ [plain [], plain ''Checking background directories...''])"
  have "set (snd ?s) \<subseteq> set (snd ?b)"
    using check_background_loop_keeps [of "snd ?s @ [plain [], plain ''Checking background directories...'']"
            os background_dirs "fst ?s"] by auto
  moreover have "set (snd ?b) \<subseteq> set (snd (check_all_processes os signal_dirs background_dirs))"
    by (auto simp add: check_all_processes_def Let_def case_prod_beta)
  ultimately have "set (snd ?s) \<subseteq> set (snd (check_all_processes os signal_dirs background_dirs))"
    by blast
  then show ?thesis
    using check_signal_loop_names [OF assms, of os ?c0 ?out0] by blast
qed

lemma fst_check_directory_structure:
  "fst (check_directory_structure os base_dir workflow) \<longleftrightarrow>
     exists os base_dir \<and> exists os (join base_dir ''02_mg_processes'')"
  by (simp add: check_directory_structure_def Let_def)

lemma check_signal_directories_nonempty: "fst (check_signal_directories os mg) \<noteq> Some []"
  by (simp add: fst_check_signal_directories Let_def)

lemma fst_check_background_directories:
  "fst (check_background_directories os d) =
     (if exists os d then glob os (join d ''background_*'') else [])"
  by (simp add: check_background_directories_def Let_def)

lemma fst_main:
  "fst (main os base_dir loaded) =
     (case loaded of
        Inl e \<Rightarrow> Inr 1
      | Inr workflow \<Rightarrow>
          if \<not> fst (check_directory_structure os base_dir workflow) then Inr 1
          else (case fst (check_signal_directories os (join base_dir ''02_mg_processes'')) of
                  None \<Rightarrow> Inr 1
                | Some signal_dirs \<Rightarrow>
                   (case fst (check_expected_structure_for_delphes os workflow) of
                      Inl e \<Rightarrow> Inl e
                    | Inr ok \<Rightarrow>
                        if fst (check_all_processes os signal_dirs
                                 (fst (check_background_directories os (join base_dir ''02_mg_processes_2''))))
                           \<and> ok
                        then Inr 0 else Inr 1)))"
proof (cases loaded)
  case (Inl e)
  then show ?thesis by (simp add: main_def)
next
  case (Inr workflow)
  show ?thesis
  proof (cases "fst (check_signal_directories os (join base_dir ''02_mg_processes''))")
    case None
    with Inr show ?thesis
      by (simp add: main_def Let_def case_prod_beta)
  next
    case (Some signal_dirs)
    then have "signal_dirs \<noteq> []"
      using check_signal_directories_nonempty [of os "join base_dir ''02_mg_processes''"] by auto
    with Inr Some show ?thesis
      by (simp add: main_def Let_def case_prod_beta split: sum.splits)
  qed
qed

lemma fst_check_expected_structure_for_delphes:
  "fst (check_expected_structure_for_delphes os workflow) =
     (case getitem workflow ''delphes'' of
        Inl e \<Rightarrow> Inl e
      | Inr delphes \<Rightarrow>
         (case getitem delphes ''input_dir_prefix'' of
            Inl e \<Rightarrow> Inl e
          | Inr v \<Rightarrow> (case as_path v of Inl e \<Rightarrow> Inl e | Inr p \<Rightarrow> Inr (exists os p))))"
  by (simp add: check_expected_structure_for_delphes_def Let_def split: sum.splits)

lemmas example_fst_simps =
  fst_check_directory_structure fst_check_signal_directories fst_check_background_directories
  fst_check_required fst_check_run fst_check_expected_structure_for_delphes

lemma rule60_neq: "hd s \<noteq> CHR ''='' \<Longrightarrow> rule60 \<noteq> s"
  by (auto simp add: rule60_def)

lemma snd_check_directory_structure:
  "l \<in> set (snd (check_directory_structure os base_dir workflow)) \<Longrightarrow>
     l \<in> {plain rule60, plain ''CHECKING DIRECTORY STRUCTURE''} \<or> fst l \<noteq> NoIcon"
  by (auto simp add: check_directory_structure_def Let_def split: if_splits)

lemma last_check_directory_structure:
  "\<not> fst (check_directory_structure os base_dir workflow) \<Longrightarrow>
     fst (last (snd (check_directory_structure os base_dir workflow))) = Cross"
  by (auto simp add: check_directory_structure_def Let_def split: if_splits)

lemma snd_expand_signal_supp:
  "l \<in> set (snd (expand_signal_supp os ds acc out)) \<Longrightarrow>
     l \<in> set out \<or> (\<exists>t. l = plain (''  '' @ t))"
proof (induction ds arbitrary: acc out)
  case Nil
  then show ?case by simp
next
  case (Cons d ds)
  from Cons.prems Cons.IH show ?case
    by (fastforce simp add: Let_def)
qed

lemma snd_check_signal_directories:
  "l \<in> set (snd (check_signal_directories os mg)) \<Longrightarrow>
     l \<in> set (banner ''CHECKING SIGNAL DIRECTORIES'')
     \<or> (\<exists>t. l = plain (''Found '' @ t)) \<or> (\<exists>t. l = plain (''  '' @ t)) \<or> fst l \<noteq> NoIcon"
proof -
  assume l: "l \<in> set (snd (check_signal_directories os mg))"
  let ?out1 = "if exists os (join mg ''signal_sm'')
               then banner ''CHECKING SIGNAL DIRECTORIES'' @ [plain ''Found signal_sm directory'']
               else banner ''CHECKING SIGNAL DIRECTORIES''"
  let ?out3 = "?out1
      @ [plain (''Found '' @ str_int (len (glob os (join mg ''signal_sm_*''))) @ '' signal_sm_* directories'')]
      @ [plain (''Found '' @ str_int (len (glob os (join mg ''signal_supp_*''))) @ '' signal_supp directories'')]"
  let ?e = "expand_signal_supp os (glob os (join mg ''signal_supp_*'')) [] ?out3"
  have "l \<in> set (snd ?e) \<or> fst l \<noteq> NoIcon"
    using l by (auto simp add: check_signal_directories_def Let_def case_prod_beta split: if_splits)
  moreover have "l \<in> set ?out3 \<or> (\<exists>t. l = plain (''  '' @ t))" if "l \<in> set (snd ?e)"
    using that by (rule snd_expand_signal_supp)
  moreover have "l \<in> set (banner ''CHECKING SIGNAL DIRECTORIES'') \<or> (\<exists>t. l = plain (''Found '' @ t))"
    if "l \<in> set ?out3"
    using that by (auto split: if_splits)
  ultimately show ?thesis by blast
qed

lemma main_structure_failed:
  "\<not> fst (check_directory_structure os base_dir workflow) \<Longrightarrow>
     main os base_dir (Inr workflow) =
       (Inr 1, [(Check, '' Workflow configuration loaded successfully'')]
               @ snd (check_directory_structure os base_dir workflow)
               @ [plain [], (Cross, '' Directory structure check failed!'')])"
  by (simp add: main_def Let_def case_prod_beta)

lemma main_no_signal:
  "fst (check_directory_structure os base_dir workflow) \<Longrightarrow>
   fst (check_signal_directories os (join base_dir ''02_mg_processes'')) = None \<Longrightarrow>
     main os base_dir (Inr workflow) =
       (Inr 1, [(Check, '' Workflow configuration loaded successfully'')]
               @ snd (check_directory_structure os base_dir workflow)
               @ snd (check_signal_directories os (join base_dir ''02_mg_processes''))
               @ [plain [], (Cross, '' No signal directories found!'')])"
  by (simp add: main_def Let_def case_prod_beta)

lemma rule60_not_validation_banner:
  "''CHECKING REQUIRED FILES IN ALL PROCESSES'' \<noteq> rule60"
  using rule60_neq [of "''CHECKING REQUIRED FILES IN ALL PROCESSES''"] by auto

lemma validation_banner_not_in_structure:
  "plain ''CHECKING REQUIRED FILES IN ALL PROCESSES''
     \<notin> set (snd (check_directory_structure os base_dir workflow))"
proof
  assume "plain ''CHECKING REQUIRED FILES IN ALL PROCESSES''
            \<in> set (snd (check_directory_structure os base_dir workflow))"
  from snd_check_directory_structure [OF this]
  show False
    by (simp add: plain_def rule60_not_validation_banner)
qed

lemma validation_banner_not_in_discovery:
  "plain ''CHECKING REQUIRED FILES IN ALL PROCESSES''
     \<notin> set (snd (check_signal_directories os mg))"
proof
  assume "plain ''CHECKING REQUIRED FILES IN ALL PROCESSES''
            \<in> set (snd (check_signal_directories os mg))"
  from snd_check_signal_directories [OF this]
  show False
    by (simp add: plain_def banner_def rule60_not_validation_banner)
qed

lemma check_all_processes_banner:
  "plain ''CHECKING REQUIRED FILES IN ALL PROCESSES''
     \<in> set (snd (check_all_processes os signal_dirs background_dirs))"
proof -
  let ?out0 = "banner ''CHECKING REQUIRED FILES IN ALL PROCESSES''
                 @ [plain [], plain ''Checking signal directories...'']"
  let ?c0 = "\<lparr>total_checked = 0, total_with_issues = 0\<rparr>"
  let ?s = "check_signal_loop os signal_dirs ?c0 ?out0"
  let ?b = "check_background_loop os background_dirs (fst ?s)
              (snd ?s @ [plain [], plain ''Checking background directories...''])"
  have "set ?out0 \<subseteq> set (snd ?s)"
    by (rule check_signal_loop_keeps)
  moreover have "set (snd ?s) \<subseteq> set (snd ?b)"
    using check_background_loop_keeps [of "snd ?s @ [plain [], plain ''Checking background directories...'']"
            os background_dirs "fst ?s"] by auto
  moreover have "set (snd ?b) \<subseteq> set (snd (check_all_processes os signal_dirs background_dirs))"
    by (auto simp add: check_all_processes_def Let_def case_prod_beta)
  moreover have "plain ''CHECKING REQUIRED FILES IN ALL PROCESSES'' \<in> set ?out0"
    by (simp add: banner_def)
  ultimately show ?thesis
    by blast
qed

lemma snd_main_reached:
  assumes ok: "fst (check_directory_structure os base_dir workflow)"
    and found: "fst (check_signal_directories os (join base_dir ''02_mg_processes'')) = Some signal_dirs"
  shows "\<exists>rest. snd (main os base_dir (Inr workflow)) =
           [(Check, '' Workflow configuration loaded successfully'')]
           @ snd (check_directory_structure os base_dir workflow)
           @ snd (check_signal_directories os (join base_dir ''02_mg_processes''))
           @ snd (check_background_directories os (join base_dir ''02_mg_processes_2''))
           @ snd (check_all_processes os signal_dirs
                    (fst (check_background_directories os (join base_dir ''02_mg_processes_2''))))
           @ snd (check_expected_structure_for_delphes os workflow)
           @ rest"
proof -
  have "signal_dirs \<noteq> []"
    using found check_signal_directories_nonempty [of os "join base_dir ''02_mg_processes''"] by auto
  with ok found show ?thesis
    by (simp add: main_def Let_def case_prod_beta split: sum.splits)
qed

lemma check_expected_structure_for_delphes_banner:
  "plain ''CHECKING EXPECTED STRUCTURE FOR DELPHES SCRIPT''
     \<in> set (snd (check_expected_structure_for_delphes os workflow))"
  by (simp add: check_expected_structure_for_delphes_def Let_def banner_def split: sum.splits)

lemma as_path_Inr: "as_path v = Inr p \<longleftrightarrow> v = YStr p"
  by (cases v) auto

lemma snd_check_expected_structure_for_delphes:
  assumes "getitem workflow ''delphes'' = Inr delphes"
    and "getitem delphes ''input_dir_prefix'' = Inr (YStr p)"
    and "exists os p"
  shows "snd (check_expected_structure_for_delphes os workflow) =
           banner ''CHECKING EXPECTED STRUCTURE FOR DELPHES SCRIPT''
           @ [(Check, '' Input directory exists: '' @ p)]
           @ concat (map (check_expected_process os p) expected_processes)"
  using assms by (simp add: check_expected_structure_for_delphes_def Let_def)

lemma same_answers_exists: "same_answers os1 os2 \<Longrightarrow> exists os1 p = exists os2 p"
  by (simp add: same_answers_def)

lemma same_answers_glob: "same_answers os1 os2 \<Longrightarrow> glob os1 pattern = glob os2 pattern"
  by (simp add: same_answers_def)

lemma check_run_same:
  assumes "same_answers os1 os2"
  shows "check_run os1 r = check_run os2 r"
  unfolding check_run_def same_answers_exists [OF assms] by (rule refl)

lemma check_runs_same:
  assumes "same_answers os1 os2"
  shows "check_runs os1 rs m out = check_runs os2 rs m out"
  by (induction rs arbitrary: m out) (simp_all add: check_run_same [OF assms])

lemma check_required_files_in_directory_same:
  assumes "same_answers os1 os2"
  shows "check_required_files_in_directory os1 d t = check_required_files_in_directory os2 d t"
  unfolding check_required_files_in_directory_def same_answers_exists [OF assms]
    same_answers_glob [OF assms] check_runs_same [OF assms]
  by (rule refl)

lemma check_directory_structure_same:
  assumes "same_answers os1 os2"
  shows "check_directory_structure os1 b w = check_directory_structure os2 b w"
  unfolding check_directory_structure_def same_answers_exists [OF assms] by (rule refl)

lemma expand_signal_supp_same:
  assumes "same_answers os1 os2"
  shows "expand_signal_supp os1 ds acc out = expand_signal_supp os2 ds acc out"
  by (induction ds arbitrary: acc out) (simp_all add: same_answers_glob [OF assms])

lemma check_signal_directories_same:
  assumes "same_answers os1 os2"
  shows "check_signal_directories os1 mg = check_signal_directories os2 mg"
  unfolding check_signal_directories_def same_answers_exists [OF assms]
    same_answers_glob [OF assms] expand_signal_supp_same [OF assms]
  by (rule refl)

lemma check_background_directories_same:
  assumes "same_answers os1 os2"
  shows "check_background_directories os1 d = check_background_directories os2 d"
  unfolding check_background_directories_def same_answers_exists [OF assms]
    same_answers_glob [OF assms]
  by (rule refl)

lemma check_signal_loop_same:
  assumes "same_answers os1 os2"
  shows "check_signal_loop os1 ds c out = check_signal_loop os2 ds c out"
  by (induction ds arbitrary: c out)
     (simp_all add: check_required_files_in_directory_same [OF assms])

lemma check_background_loop_same:
  assumes "same_answers os1 os2"
  shows "check_background_loop os1 ds c out = check_background_loop os2 ds c out"
  by (induction ds arbitrary: c out)
     (simp_all add: check_required_files_in_directory_same [OF assms])

lemma check_all_processes_same:
  assumes "same_answers os1 os2"
  shows "check_all_processes os1 sd bd = check_all_processes os2 sd bd"
  unfolding check_all_processes_def check_signal_loop_same [OF assms]
    check_background_loop_same [OF assms]
  by (rule refl)

lemma check_expected_process_same:
  assumes "same_answers os1 os2"
  shows "check_expected_process os1 p process = check_expected_process os2 p process"
  unfolding check_expected_process_def same_answers_exists [OF assms]
    same_answers_glob [OF assms]
  by (rule refl)

lemma check_expected_structure_for_delphes_same:
  assumes "same_answers os1 os2"
  shows "check_expected_structure_for_delphes os1 w = check_expected_structure_for_delphes os2 w"
proof -
  have same: "check_expected_process os1 = check_expected_process os2"
    by (intro ext) (rule check_expected_process_same [OF assms])
  show ?thesis
    unfolding check_expected_structure_for_delphes_def same_answers_exists [OF assms] same
    by (rule refl)
qed

lemma main_same:
  assumes "same_answers os1 os2"
  shows "main os1 b l = main os2 b l"
  unfolding main_def check_directory_structure_same [OF assms]
    check_signal_directories_same [OF assms] check_background_directories_same [OF assms]
    check_all_processes_same [OF assms] check_expected_structure_for_delphes_same [OF assms]
  by (rule refl)

lemma check_all_processes_total:
  "plain (''   Total processes checked: '' @ str_int (len signal_dirs + len background_dirs))
     \<in> set (snd (check_all_processes os signal_dirs background_dirs))"
  by (simp add: check_all_processes_def Let_def case_prod_beta len_def
        check_signal_loop_counts check_background_loop_counts)

lemma same_answers_denied: "same_answers os_denied os_no_events"
  by (auto simp add: same_answers_def os_denied_def os_no_events_def example_os_def exists_def)

lemma check_background_loop_names:
  "d \<in> set ds \<Longrightarrow>
     (Cross, '' '' @ basename d @ '': Missing files:'') \<in> set (snd (check_background_loop os ds c out))
     \<or> (Check, '' '' @ basename d @ '': All required files present'')
          \<in> set (snd (check_background_loop os ds c out))"
proof (induction ds arbitrary: c out)
  case Nil
  then show ?case by simp
next
  case (Cons e ds)
  let ?m = "fst (check_required_files_in_directory os e ''background'')"
  let ?out = "out @ snd (check_required_files_in_directory os e ''background'')
               @ snd (report_process (basename e) ?m c)"
  let ?c = "fst (report_process (basename e) ?m c)"
  have step: "check_background_loop os (e # ds) c out = check_background_loop os ds ?c ?out"
    by (simp add: Let_def case_prod_beta)
  show ?case
  proof (cases "d = e")
    case True
    have "set (snd (report_process (basename e) ?m c))
            \<subseteq> set (snd (check_background_loop os ds ?c ?out))"
      using check_background_loop_keeps [of ?out os ds ?c] by auto
    then show ?thesis
      using report_process_names [of "basename e" ?m c] True step by auto
  next
    case False
    with Cons.prems have "d \<in> set ds" by simp
    then show ?thesis
      using Cons.IH [of ?c ?out] step by simp
  qed
qed

lemma check_all_processes_background_names:
  assumes "d \<in> set background_dirs"
  shows "(Cross, '' '' @ basename d @ '': Missing files:'')
           \<in> set (snd (check_all_processes os signal_dirs background_dirs))
     \<or> (Check, '' '' @ basename d @ '': All required files present'')
           \<in> set (snd (check_all_processes os signal_dirs background_dirs))"
proof -
  let ?out0 = "banner ''CHECKING REQUIRED FILES IN ALL PROCESSES''
                 @ [plain [], plain ''Checking signal directories...'']"
  let ?c0 = "\<lparr>total_checked = 0, total_with_issues = 0\<rparr>"
  let ?s = "check_signal_loop os signal_dirs ?c0 ?out0"
  let ?b = "check_background_loop os background_dirs (fst ?s)
              (snd ?s @ [plain [], plain ''Checking background directories...''])"
  have "set (snd ?b) \<subseteq> set (snd (check_all_processes os signal_dirs background_dirs))"
    by (auto simp add: check_all_processes_def Let_def case_prod_beta)
  then show ?thesis
    using check_background_loop_names [OF assms, of os "fst ?s"
            "snd ?s @ [plain [], plain ''Checking background directories...'']"]
    by blast
qed

lemma access_error_on_events:
  "stat os (join d ''Events'') = AccessError \<Longrightarrow>
     check_required_files_in_directory os d t = ([''Events/''], [])"
  by (simp add: check_required_files_in_directory_def exists_def)

lemma access_error_on_required_file:
  assumes "exists os (join d ''Events'')"
    and "r \<in> set (glob os (join (join d ''Events'') ''run_*''))"
    and "stat os (join r ''unweighted_events.lhe'') = AccessError"
  shows "basename r @ ''/unweighted_events.lhe'' \<in> set (fst (check_required_files_in_directory os d t))"
proof -
  have "\<not> exists os (join r ''unweighted_events.lhe'')"
    using assms(3) by (simp add: exists_def)
  then have "basename r @ ''/unweighted_events.lhe'' \<in> set (fst (check_run os r))"
    by (simp add: fst_check_run)
  with assms(1,2) show ?thesis
    by (auto simp add: fst_check_required)
qed

lemma access_error_on_optional_file:
  assumes "f \<in> set optional_files" and "stat os (join r f) = AccessError"
  shows "(Check, ''   Optional file found: '' @ basename r @ ''/'' @ f) \<notin> set (snd (check_run os r))"
proof -
  have "\<not> exists os (join r f)"
    using assms(2) by (simp add: exists_def)
  with assms(1) show ?thesis
    by (auto simp add: check_run_def Let_def optional_files_def)
qed

lemma access_error_on_background_root:
  "stat os d = AccessError \<Longrightarrow>
     check_background_directories os d =
       ([], banner ''CHECKING BACKGROUND DIRECTORIES''
            @ [(Warning, ''  Background base directory does not exist yet: '' @ d)])"
  by (simp add: check_background_directories_def exists_def)

lemma access_error_on_signal_root:
  "stat os (join base_dir ''02_mg_processes'') = AccessError \<Longrightarrow>
     fst (main os base_dir loaded) = Inr 1"
  by (simp add: fst_main fst_check_directory_structure exists_def split: sum.splits)

section \<open>Properties\<close>

text \<open>
  C1: the exit status is 0 exactly when the run reaches the final verdict (the
  configuration loads, the directory structure check passes and signal directories are
  found), every checked signal and background process directory has an empty
  missing-item list, and the downstream-structure check returns \<open>True\<close>. Otherwise
  it is 1.
\<close>

theorem exit_status_is_conjunction:
  "(exit_status (fst (main os base_dir loaded)) = 0 \<longleftrightarrow>
      (\<exists>workflow signal_dirs.
          loaded = Inr workflow
        \<and> fst (check_directory_structure os base_dir workflow)
        \<and> fst (check_signal_directories os (join base_dir ''02_mg_processes'')) = Some signal_dirs
        \<and> (\<forall>d \<in> set signal_dirs. fst (check_required_files_in_directory os d ''signal'') = [])
        \<and> (\<forall>d \<in> set (fst (check_background_directories os (join base_dir ''02_mg_processes_2''))).
              fst (check_required_files_in_directory os d ''background'') = [])
        \<and> fst (check_expected_structure_for_delphes os workflow) = Inr True))
   \<and> (exit_status (fst (main os base_dir loaded)) = 0 \<or> exit_status (fst (main os base_dir loaded)) = 1)"
  by (auto simp add: fst_main exit_status_def check_all_processes_verdict
        split: sum.splits option.splits)

theorem exit_status_is_conjunction_witness:
  "exit_status (fst (main os_pass ''.'' (Inr workflow_ok))) = 0
   \<and> exit_status (fst (main os_no_runs ''.'' (Inr workflow_ok))) \<noteq> 0"
proof -
  let ?sm = "''./02_mg_processes/signal_sm''"
  let ?bg = "''./02_mg_processes_2/background_tt''"
  have s1: "fst (check_directory_structure os_pass ''.'' workflow_ok)"
    by (simp add: example_fst_simps os_pass_def example_simps)
  have s2: "fst (check_signal_directories os_pass (join ''.'' ''02_mg_processes'')) = Some [?sm]"
    by (simp add: example_fst_simps os_pass_def example_simps)
  have s3: "\<forall>d \<in> set [?sm]. fst (check_required_files_in_directory os_pass d ''signal'') = []"
    by (simp add: example_fst_simps os_pass_def example_simps)
  have b1: "fst (check_background_directories os_pass (join ''.'' ''02_mg_processes_2'')) = [?bg]"
    by (simp add: example_fst_simps os_pass_def example_simps)
  have b2: "\<forall>d \<in> set [?bg]. fst (check_required_files_in_directory os_pass d ''background'') = []"
    by (simp add: example_fst_simps os_pass_def example_simps)
  have s4: "fst (check_expected_structure_for_delphes os_pass workflow_ok) = Inr True"
    by (simp add: example_fst_simps os_pass_def example_simps workflow_ok_def)
  have pass: "exit_status (fst (main os_pass ''.'' (Inr workflow_ok))) = 0"
    using exit_status_is_conjunction [of os_pass "''.''" "Inr workflow_ok"] s1 s2 s3 b1 b2 s4
    by auto
  have f2: "fst (check_signal_directories os_no_runs (join ''.'' ''02_mg_processes'')) = Some [?sm]"
    by (simp add: example_fst_simps os_no_runs_def example_simps)
  have f3: "fst (check_required_files_in_directory os_no_runs ?sm ''signal'') \<noteq> []"
    by (simp add: example_fst_simps os_no_runs_def example_simps)
  have fail: "exit_status (fst (main os_no_runs ''.'' (Inr workflow_ok))) \<noteq> 0"
    using exit_status_is_conjunction [of os_no_runs "''.''" "Inr workflow_ok"] f2 f3
    by auto
  from pass fail show ?thesis ..
qed

text \<open>
  C2, as stated, fails: with the configured downstream root \<open>out\<close> present and
  none of \<open>signal_sm\<close>, \<open>signal_supp\<close>, \<open>background\<close> inside it, the
  downstream-structure check still returns \<open>True\<close>.
\<close>

theorem downstream_check_counterexample:
  "fst (check_expected_structure_for_delphes os_bare workflow_ok) = Inr True
   \<and> \<not> exists os_bare (join ''out'' ''signal_sm'')
   \<and> \<not> exists os_bare (join ''out'' ''signal_supp'')
   \<and> \<not> exists os_bare (join ''out'' ''background'')"
  by (simp add: fst_check_expected_structure_for_delphes workflow_ok_def os_bare_def example_simps)

text \<open>
  C2, amended: the downstream-structure check returns \<open>True\<close> exactly when the
  configuration holds a string under \<open>delphes\<close> / \<open>input_dir_prefix\<close> and that path
  exists. Its result does not depend on what \<open>glob\<close> answers; a missing category
  directory and a \<open>signal_supp\<close> directory without \<open>mb_vector_*\<close> entries are each
  reported as a warning line only.
\<close>

theorem downstream_check_succeeds_iff_root_exists:
  "(fst (check_expected_structure_for_delphes os workflow) = Inr True \<longleftrightarrow>
      (\<exists>delphes p. getitem workflow ''delphes'' = Inr delphes
          \<and> getitem delphes ''input_dir_prefix'' = Inr (YStr p) \<and> exists os p))
   \<and> fst (check_expected_structure_for_delphes (os\<lparr>glob := g\<rparr>) workflow)
       = fst (check_expected_structure_for_delphes os workflow)
   \<and> (getitem workflow ''delphes'' = Inr delphes
        \<and> getitem delphes ''input_dir_prefix'' = Inr (YStr p) \<and> exists os p
        \<and> process \<in> set expected_processes \<and> \<not> exists os (join p process) \<longrightarrow>
      (Warning, ''  '' @ process @ '' directory not found: '' @ join p process)
        \<in> set (snd (check_expected_structure_for_delphes os workflow)))
   \<and> (getitem workflow ''delphes'' = Inr delphes
        \<and> getitem delphes ''input_dir_prefix'' = Inr (YStr p) \<and> exists os p
        \<and> exists os (join p ''signal_supp'')
        \<and> glob os (join (join p ''signal_supp'') ''mb_vector_*'') = [] \<longrightarrow>
      (Warning, ''    No mb_vector_* subdirectories found in signal_supp'')
        \<in> set (snd (check_expected_structure_for_delphes os workflow)))"
proof (intro conjI impI)
  show "fst (check_expected_structure_for_delphes os workflow) = Inr True \<longleftrightarrow>
      (\<exists>delphes p. getitem workflow ''delphes'' = Inr delphes
          \<and> getitem delphes ''input_dir_prefix'' = Inr (YStr p) \<and> exists os p)"
    by (auto simp add: fst_check_expected_structure_for_delphes as_path_Inr split: sum.splits)
  show "fst (check_expected_structure_for_delphes (os\<lparr>glob := g\<rparr>) workflow)
       = fst (check_expected_structure_for_delphes os workflow)"
    by (simp add: fst_check_expected_structure_for_delphes exists_def split: sum.splits)
next
  assume a: "getitem workflow ''delphes'' = Inr delphes
        \<and> getitem delphes ''input_dir_prefix'' = Inr (YStr p) \<and> exists os p
        \<and> process \<in> set expected_processes \<and> \<not> exists os (join p process)"
  then have "(Warning, ''  '' @ process @ '' directory not found: '' @ join p process)
               \<in> set (check_expected_process os p process)"
    by (simp add: check_expected_process_def)
  with a show "(Warning, ''  '' @ process @ '' directory not found: '' @ join p process)
        \<in> set (snd (check_expected_structure_for_delphes os workflow))"
    by (auto simp add: snd_check_expected_structure_for_delphes)
next
  assume a: "getitem workflow ''delphes'' = Inr delphes
        \<and> getitem delphes ''input_dir_prefix'' = Inr (YStr p) \<and> exists os p
        \<and> exists os (join p ''signal_supp'')
        \<and> glob os (join (join p ''signal_supp'') ''mb_vector_*'') = []"
  then have "(Warning, ''    No mb_vector_* subdirectories found in signal_supp'')
               \<in> set (check_expected_process os p ''signal_supp'')"
    by (simp add: check_expected_process_def)
  with a show "(Warning, ''    No mb_vector_* subdirectories found in signal_supp'')
        \<in> set (snd (check_expected_structure_for_delphes os workflow))"
    by (simp add: snd_check_expected_structure_for_delphes expected_processes_def)
qed

theorem downstream_check_succeeds_iff_root_exists_witness:
  "(Warning, ''  background directory not found: out/background'')
     \<in> set (snd (check_expected_structure_for_delphes os_bare workflow_ok))
   \<and> exists os_bare ''out''"
proof -
  have a: "getitem workflow_ok ''delphes'' = Inr (YMap [(''input_dir_prefix'', YStr ''out'')])
        \<and> getitem (YMap [(''input_dir_prefix'', YStr ''out'')]) ''input_dir_prefix'' = Inr (YStr ''out'')
        \<and> exists os_bare ''out''
        \<and> ''background'' \<in> set expected_processes \<and> \<not> exists os_bare (join ''out'' ''background'')"
    by (simp add: workflow_ok_def expected_processes_def os_bare_def example_simps)
  from downstream_check_succeeds_iff_root_exists
         [of os_bare workflow_ok _ "YMap [(''input_dir_prefix'', YStr ''out'')]" "''out''" "''background''"] a
  have "(Warning, ''  '' @ ''background'' @ '' directory not found: '' @ join ''out'' ''background'')
          \<in> set (snd (check_expected_structure_for_delphes os_bare workflow_ok))"
    by blast
  with a show ?thesis
    by (simp add: join_def suffix_slash_iff)
qed

text \<open>
  C3, as stated, fails: a process directory whose \<open>Events\<close> entry cannot be
  accessed gets the same missing items and the same printed lines as one whose
  \<open>Events\<close> entry does not exist, and the whole run returns and prints the same.
\<close>

theorem access_error_counterexample:
  "stat os_denied ''./02_mg_processes/signal_sm/Events'' = AccessError
   \<and> stat os_no_events ''./02_mg_processes/signal_sm/Events'' = NoEntry
   \<and> check_required_files_in_directory os_denied ''./02_mg_processes/signal_sm'' ''signal''
       = check_required_files_in_directory os_no_events ''./02_mg_processes/signal_sm'' ''signal''
   \<and> main os_denied ''.'' (Inr workflow_ok) = main os_no_events ''.'' (Inr workflow_ok)"
proof -
  have "stat os_denied ''./02_mg_processes/signal_sm/Events'' = AccessError"
    by (simp add: os_denied_def example_os_def)
  moreover have "stat os_no_events ''./02_mg_processes/signal_sm/Events'' = NoEntry"
    by (simp add: os_no_events_def example_os_def)
  ultimately show ?thesis
    using check_required_files_in_directory_same [OF same_answers_denied]
      main_same [OF same_answers_denied]
    by simp
qed

text \<open>
  C3, amended: the program sees the file system through \<open>exists\<close> and \<open>glob\<close>
  only, so an access error on a path has exactly the effect the absence of that path
  has, with no distinct report: two states that differ only in why \<open>os.stat\<close> fails
  give the same per-directory outcome, the same result of \<open>check_all_processes\<close> and
  the same run of \<open>main\<close>. Inside a process directory, an inaccessible \<open>Events\<close> entry
  is recorded as the ordinary missing item \<open>Events/\<close> and an inaccessible required
  file of a run as \<open><run_name>/unweighted_events.lhe\<close>; either makes
  \<open>check_all_processes\<close> fail, whose verdict still depends on every directory handed
  to it, each of which is counted and reported. Where absence is no failure, neither
  is the access error: an inaccessible background root gives the warning and no
  background directory, an inaccessible optional file is not reported. An inaccessible
  signal root ends the run with status 1.
\<close>

theorem access_error_treated_as_absent:
  assumes "glob os1 = glob os2"
    and "\<forall>p. (stat os1 p = StatOk) \<longleftrightarrow> (stat os2 p = StatOk)"
  shows "check_required_files_in_directory os1 d t = check_required_files_in_directory os2 d t
     \<and> check_all_processes os1 signal_dirs background_dirs
         = check_all_processes os2 signal_dirs background_dirs
     \<and> main os1 base_dir loaded = main os2 base_dir loaded
     \<and> (stat os1 (join d ''Events'') = AccessError \<longrightarrow>
          check_required_files_in_directory os1 d t = ([''Events/''], []))
     \<and> (exists os1 (join d ''Events'')
          \<and> r \<in> set (glob os1 (join (join d ''Events'') ''run_*''))
          \<and> stat os1 (join r ''unweighted_events.lhe'') = AccessError \<longrightarrow>
          basename r @ ''/unweighted_events.lhe''
            \<in> set (fst (check_required_files_in_directory os1 d t)))
     \<and> ((stat os1 (join d ''Events'') = AccessError
           \<or> exists os1 (join d ''Events'')
             \<and> r \<in> set (glob os1 (join (join d ''Events'') ''run_*''))
             \<and> stat os1 (join r ''unweighted_events.lhe'') = AccessError)
          \<and> d \<in> set (signal_dirs @ background_dirs) \<longrightarrow>
          \<not> fst (check_all_processes os1 signal_dirs background_dirs))
     \<and> (fst (check_all_processes os1 signal_dirs background_dirs) \<longleftrightarrow>
          (\<forall>e \<in> set signal_dirs. fst (check_required_files_in_directory os1 e ''signal'') = [])
          \<and> (\<forall>e \<in> set background_dirs.
                fst (check_required_files_in_directory os1 e ''background'') = []))
     \<and> plain (''   Total processes checked: '' @ str_int (len signal_dirs + len background_dirs))
          \<in> set (snd (check_all_processes os1 signal_dirs background_dirs))
     \<and> (\<forall>e \<in> set signal_dirs.
           (Cross, '' '' @ signal_process_name e @ '': Missing files:'')
              \<in> set (snd (check_all_processes os1 signal_dirs background_dirs))
           \<or> (Check, '' '' @ signal_process_name e @ '': All required files present'')
              \<in> set (snd (check_all_processes os1 signal_dirs background_dirs)))
     \<and> (\<forall>e \<in> set background_dirs.
           (Cross, '' '' @ basename e @ '': Missing files:'')
              \<in> set (snd (check_all_processes os1 signal_dirs background_dirs))
           \<or> (Check, '' '' @ basename e @ '': All required files present'')
              \<in> set (snd (check_all_processes os1 signal_dirs background_dirs)))
     \<and> (stat os1 (join base_dir ''02_mg_processes_2'') = AccessError \<longrightarrow>
          check_background_directories os1 (join base_dir ''02_mg_processes_2'') =
            ([], banner ''CHECKING BACKGROUND DIRECTORIES''
                 @ [(Warning, ''  Background base directory does not exist yet: ''
                              @ join base_dir ''02_mg_processes_2'')]))
     \<and> (f \<in> set optional_files \<and> stat os1 (join r f) = AccessError \<longrightarrow>
          (Check, ''   Optional file found: '' @ basename r @ ''/'' @ f)
            \<notin> set (snd (check_run os1 r)))
     \<and> (stat os1 (join base_dir ''02_mg_processes'') = AccessError \<longrightarrow>
          fst (main os1 base_dir loaded) = Inr 1)"
proof (intro conjI impI ballI)
  have same: "same_answers os1 os2"
    using assms by (simp add: same_answers_def exists_iff)
  show "check_required_files_in_directory os1 d t = check_required_files_in_directory os2 d t"
    by (rule check_required_files_in_directory_same [OF same])
  show "check_all_processes os1 signal_dirs background_dirs
         = check_all_processes os2 signal_dirs background_dirs"
    by (rule check_all_processes_same [OF same])
  show "main os1 base_dir loaded = main os2 base_dir loaded"
    by (rule main_same [OF same])
next
  assume "stat os1 (join d ''Events'') = AccessError"
  then show "check_required_files_in_directory os1 d t = ([''Events/''], [])"
    by (rule access_error_on_events)
next
  assume "exists os1 (join d ''Events'')
          \<and> r \<in> set (glob os1 (join (join d ''Events'') ''run_*''))
          \<and> stat os1 (join r ''unweighted_events.lhe'') = AccessError"
  then show "basename r @ ''/unweighted_events.lhe''
            \<in> set (fst (check_required_files_in_directory os1 d t))"
    by (simp add: access_error_on_required_file)
next
  assume a: "(stat os1 (join d ''Events'') = AccessError
           \<or> exists os1 (join d ''Events'')
             \<and> r \<in> set (glob os1 (join (join d ''Events'') ''run_*''))
             \<and> stat os1 (join r ''unweighted_events.lhe'') = AccessError)
          \<and> d \<in> set (signal_dirs @ background_dirs)"
  have "fst (check_required_files_in_directory os1 d t') \<noteq> []" for t'
    using a access_error_on_events [of os1 d t'] access_error_on_required_file [of os1 d r t']
    by auto
  from this [of "''signal''"] this [of "''background''"] a
  show "\<not> fst (check_all_processes os1 signal_dirs background_dirs)"
    by (auto simp add: check_all_processes_verdict)
next
  show "fst (check_all_processes os1 signal_dirs background_dirs) \<longleftrightarrow>
          (\<forall>e \<in> set signal_dirs. fst (check_required_files_in_directory os1 e ''signal'') = [])
          \<and> (\<forall>e \<in> set background_dirs.
                fst (check_required_files_in_directory os1 e ''background'') = [])"
    by (rule check_all_processes_verdict)
  show "plain (''   Total processes checked: '' @ str_int (len signal_dirs + len background_dirs))
          \<in> set (snd (check_all_processes os1 signal_dirs background_dirs))"
    by (rule check_all_processes_total)
next
  fix e assume "e \<in> set signal_dirs"
  then show "(Cross, '' '' @ signal_process_name e @ '': Missing files:'')
              \<in> set (snd (check_all_processes os1 signal_dirs background_dirs))
           \<or> (Check, '' '' @ signal_process_name e @ '': All required files present'')
              \<in> set (snd (check_all_processes os1 signal_dirs background_dirs))"
    by (rule check_all_processes_names)
next
  fix e assume "e \<in> set background_dirs"
  then show "(Cross, '' '' @ basename e @ '': Missing files:'')
              \<in> set (snd (check_all_processes os1 signal_dirs background_dirs))
           \<or> (Check, '' '' @ basename e @ '': All required files present'')
              \<in> set (snd (check_all_processes os1 signal_dirs background_dirs))"
    by (rule check_all_processes_background_names)
next
  assume "stat os1 (join base_dir ''02_mg_processes_2'') = AccessError"
  then show "check_background_directories os1 (join base_dir ''02_mg_processes_2'') =
            ([], banner ''CHECKING BACKGROUND DIRECTORIES''
                 @ [(Warning, ''  Background base directory does not exist yet: ''
                              @ join base_dir ''02_mg_processes_2'')])"
    by (rule access_error_on_background_root)
next
  assume "f \<in> set optional_files \<and> stat os1 (join r f) = AccessError"
  then have "f \<in> set optional_files" and "stat os1 (join r f) = AccessError"
    by blast+
  then show "(Check, ''   Optional file found: '' @ basename r @ ''/'' @ f)
            \<notin> set (snd (check_run os1 r))"
    by (rule access_error_on_optional_file)
next
  assume "stat os1 (join base_dir ''02_mg_processes'') = AccessError"
  then show "fst (main os1 base_dir loaded) = Inr 1"
    by (rule access_error_on_signal_root)
qed

theorem access_error_treated_as_absent_witness:
  "check_required_files_in_directory os_denied ''./02_mg_processes/signal_sm'' ''signal''
     = ([''Events/''], [])
   \<and> fst (main os_denied ''.'' (Inr workflow_ok)) = fst (main os_no_events ''.'' (Inr workflow_ok))
   \<and> ''run_01/unweighted_events.lhe''
        \<in> set (fst (check_required_files_in_directory os_denied_file
                       ''./02_mg_processes/signal_sm'' ''signal''))
   \<and> \<not> fst (check_all_processes os_denied_file
              [''./02_mg_processes/signal_sm''] [''./02_mg_processes_2/background_tt''])
   \<and> fst (check_required_files_in_directory os_denied_file
              ''./02_mg_processes_2/background_tt'' ''background'') = []
   \<and> fst (check_background_directories os_denied_roots (join ''.'' ''02_mg_processes_2'')) = []
   \<and> fst (main os_denied_roots ''.'' (Inr workflow_ok)) = Inr 1
   \<and> (Check, ''   Optional file found: r/unweighted_events.lhe.gz'')
        \<notin> set (snd (check_run os_denied_roots ''r''))"
proof -
  let ?sm = "''./02_mg_processes/signal_sm''"
  let ?bg = "''./02_mg_processes_2/background_tt''"
  let ?run = "''./02_mg_processes/signal_sm/Events/run_01''"
  have g1: "glob os_denied = glob os_no_events"
    by (simp add: os_denied_def os_no_events_def example_os_def)
  have s1: "\<forall>p. (stat os_denied p = StatOk) \<longleftrightarrow> (stat os_no_events p = StatOk)"
    by (simp add: os_denied_def os_no_events_def example_os_def)
  have d1: "stat os_denied (join ?sm ''Events'') = AccessError"
    by (simp add: os_denied_def example_os_def join_def suffix_slash_iff)
  note first = access_error_treated_as_absent [OF g1 s1, where d = ?sm and t = "''signal''"
         and base_dir = "''.''" and loaded = "Inr workflow_ok"]
  from first d1
  have a: "check_required_files_in_directory os_denied ?sm ''signal'' = ([''Events/''], [])"
    by blast
  from first
  have "main os_denied ''.'' (Inr workflow_ok) = main os_no_events ''.'' (Inr workflow_ok)"
    by blast
  then have b: "fst (main os_denied ''.'' (Inr workflow_ok))
                  = fst (main os_no_events ''.'' (Inr workflow_ok))"
    by simp
  have g2: "glob os_denied_file = glob os_absent_file"
    by (simp add: os_denied_file_def os_absent_file_def example_os_def)
  have s2: "\<forall>p. (stat os_denied_file p = StatOk) \<longleftrightarrow> (stat os_absent_file p = StatOk)"
    by (simp add: os_denied_file_def os_absent_file_def example_os_def)
  have d2: "exists os_denied_file (join ?sm ''Events'')
          \<and> ?run \<in> set (glob os_denied_file (join (join ?sm ''Events'') ''run_*''))
          \<and> stat os_denied_file (join ?run ''unweighted_events.lhe'') = AccessError"
    by (simp add: os_denied_file_def example_simps)
  have m2: "?sm \<in> set ([?sm] @ [?bg])"
    by simp
  note second = access_error_treated_as_absent [OF g2 s2, where d = ?sm and r = ?run
         and t = "''signal''" and signal_dirs = "[?sm]" and background_dirs = "[?bg]"]
  from second d2
  have "basename ?run @ ''/unweighted_events.lhe''
          \<in> set (fst (check_required_files_in_directory os_denied_file ?sm ''signal''))"
    by blast
  then have c: "''run_01/unweighted_events.lhe''
          \<in> set (fst (check_required_files_in_directory os_denied_file ?sm ''signal''))"
    by (simp add: basename_def)
  from second d2 m2
  have d: "\<not> fst (check_all_processes os_denied_file [?sm] [?bg])"
    by blast
  have e: "fst (check_required_files_in_directory os_denied_file ?bg ''background'') = []"
    by (simp add: example_fst_simps os_denied_file_def example_simps)
  have g3: "glob os_denied_roots = glob os_bare"
    by (simp add: os_denied_roots_def os_bare_def example_os_def)
  have s3: "\<forall>p. (stat os_denied_roots p = StatOk) \<longleftrightarrow> (stat os_bare p = StatOk)"
    by (simp add: os_denied_roots_def os_bare_def example_os_def)
  have d3: "stat os_denied_roots (join ''.'' ''02_mg_processes_2'') = AccessError"
    "stat os_denied_roots (join ''.'' ''02_mg_processes'') = AccessError"
    "''unweighted_events.lhe.gz'' \<in> set optional_files
       \<and> stat os_denied_roots (join ''r'' ''unweighted_events.lhe.gz'') = AccessError"
    by (simp_all add: os_denied_roots_def example_os_def join_def suffix_slash_iff optional_files_def)
  note third = access_error_treated_as_absent [OF g3 s3, where base_dir = "''.''"
         and loaded = "Inr workflow_ok" and r = "''r''" and f = "''unweighted_events.lhe.gz''"]
  from third d3(1)
  have "check_background_directories os_denied_roots (join ''.'' ''02_mg_processes_2'') =
            ([], banner ''CHECKING BACKGROUND DIRECTORIES''
                 @ [(Warning, ''  Background base directory does not exist yet: ''
                              @ join ''.'' ''02_mg_processes_2'')])"
    by blast
  then have f: "fst (check_background_directories os_denied_roots (join ''.'' ''02_mg_processes_2'')) = []"
    by simp
  from third d3(2)
  have g: "fst (main os_denied_roots ''.'' (Inr workflow_ok)) = Inr 1"
    by blast
  from third d3(3)
  have "(Check, ''   Optional file found: '' @ basename ''r'' @ ''/'' @ ''unweighted_events.lhe.gz'')
            \<notin> set (snd (check_run os_denied_roots ''r''))"
    by blast
  then have h: "(Check, ''   Optional file found: r/unweighted_events.lhe.gz'')
        \<notin> set (snd (check_run os_denied_roots ''r''))"
    by (simp add: basename_def)
  from a b c d e f g h show ?thesis
    by blast
qed

text \<open>
  C4: a process directory whose \<open>Events\<close> entry does not exist yields exactly the
  missing item \<open>Events/\<close>, whatever \<open>glob\<close> would answer (the run directories are not
  looked for); one whose \<open>Events\<close> exists but has no \<open>run_*\<close> entry yields exactly
  \<open>Events/run_*\<close>. Either way the directory is not skipped: if it is among the
  directories handed to \<open>check_all_processes\<close>, the verdict is a failure.
\<close>

theorem events_missing_or_empty:
  "(\<not> exists os (join d ''Events'') \<longrightarrow>
      (\<forall>g. check_required_files_in_directory (os\<lparr>glob := g\<rparr>) d t = ([''Events/''], [])))
   \<and> (exists os (join d ''Events'') \<and> glob os (join (join d ''Events'') ''run_*'') = [] \<longrightarrow>
      check_required_files_in_directory os d t = ([''Events/run_*''], []))
   \<and> ((\<not> exists os (join d ''Events'') \<or> glob os (join (join d ''Events'') ''run_*'') = [])
        \<and> d \<in> set (signal_dirs @ background_dirs) \<longrightarrow>
      \<not> fst (check_all_processes os signal_dirs background_dirs))"
proof -
  have a: "\<not> exists os (join d ''Events'') \<Longrightarrow>
      check_required_files_in_directory (os\<lparr>glob := g\<rparr>) d t = ([''Events/''], [])" for g
    by (simp add: check_required_files_in_directory_def exists_def)
  have b: "exists os (join d ''Events'') \<and> glob os (join (join d ''Events'') ''run_*'') = [] \<Longrightarrow>
      check_required_files_in_directory os d t = ([''Events/run_*''], [])"
    by (simp add: check_required_files_in_directory_def)
  have c: "\<not> exists os (join d ''Events'') \<or> glob os (join (join d ''Events'') ''run_*'') = [] \<Longrightarrow>
      fst (check_required_files_in_directory os d t') \<noteq> []" for t'
    by (auto simp add: fst_check_required)
  show ?thesis
    using a b c [of "''signal''"] c [of "''background''"]
    by (simp add: check_all_processes_verdict) blast
qed

theorem events_missing_or_empty_witness:
  "check_required_files_in_directory os_no_events ''./02_mg_processes/signal_sm'' ''signal'' = ([''Events/''], [])
   \<and> check_required_files_in_directory os_no_runs ''./02_mg_processes/signal_sm'' ''signal'' = ([''Events/run_*''], [])
   \<and> \<not> fst (check_all_processes os_no_runs [''./02_mg_processes/signal_sm''] [])"
proof -
  let ?d = "''./02_mg_processes/signal_sm''"
  have h1: "\<not> exists os_no_events (join ?d ''Events'')"
    by (simp add: os_no_events_def example_simps)
  have h2: "exists os_no_runs (join ?d ''Events'') \<and> glob os_no_runs (join (join ?d ''Events'') ''run_*'') = []"
    by (simp add: os_no_runs_def example_simps)
  have h3: "?d \<in> set ([?d] @ [])"
    by simp
  from events_missing_or_empty [of os_no_events ?d "''signal''"] h1
  have "check_required_files_in_directory (os_no_events\<lparr>glob := glob os_no_events\<rparr>) ?d ''signal'' = ([''Events/''], [])"
    by blast
  moreover from events_missing_or_empty [of os_no_runs ?d "''signal''" "[?d]" "[]"] h2 h3
  have "check_required_files_in_directory os_no_runs ?d ''signal'' = ([''Events/run_*''], [])
        \<and> \<not> fst (check_all_processes os_no_runs [?d] [])"
    by blast
  ultimately show ?thesis
    by simp
qed

text \<open>
  C5: with \<open>Events\<close> present, the missing items of a process directory that has
  run directories are the concatenation, in order, of the missing items of its run
  directories (without any, the single item \<open>Events/run_*\<close>). If there are run
  directories and each lacks \<open>unweighted_events.lhe\<close>, there is one entry
  \<open><run_name>/unweighted_events.lhe\<close> per run directory, and the entries are
  pairwise distinct when the run names are.
\<close>

theorem one_missing_item_per_run:
  assumes ev: "exists os (join d ''Events'')"
    and rd: "glob os (join (join d ''Events'') ''run_*'') = run_dirs"
  shows "fst (check_required_files_in_directory os d t)
           = (if run_dirs = [] then [''Events/run_*'']
              else concat (map (\<lambda>r. fst (check_run os r)) run_dirs))
     \<and> (run_dirs \<noteq> [] \<and> (\<forall>r \<in> set run_dirs. \<not> exists os (join r ''unweighted_events.lhe'')) \<longrightarrow>
          fst (check_required_files_in_directory os d t)
            = map (\<lambda>r. basename r @ ''/unweighted_events.lhe'') run_dirs
          \<and> length (fst (check_required_files_in_directory os d t)) = length run_dirs
          \<and> (distinct (map basename run_dirs) \<longrightarrow>
               distinct (fst (check_required_files_in_directory os d t))))"
proof -
  have union: "fst (check_required_files_in_directory os d t)
           = (if run_dirs = [] then [''Events/run_*'']
              else concat (map (\<lambda>r. fst (check_run os r)) run_dirs))"
    using ev rd by (simp add: fst_check_required)
  have all_missing: "concat (map (\<lambda>r. fst (check_run os r)) rs)
                = map (\<lambda>r. basename r @ ''/unweighted_events.lhe'') rs"
    if "\<forall>r \<in> set rs. \<not> exists os (join r ''unweighted_events.lhe'')" for rs
    using that by (induction rs) (simp_all add: fst_check_run)
  have dist: "distinct (map (\<lambda>r. basename r @ ''/unweighted_events.lhe'') run_dirs)"
    if "distinct (map basename run_dirs)"
  proof -
    have "distinct (map (\<lambda>n. n @ ''/unweighted_events.lhe'') (map basename run_dirs))"
      using that by (simp only: distinct_map) (simp add: inj_on_def)
    then show ?thesis
      by (simp add: comp_def)
  qed
  show ?thesis
    using union all_missing [of run_dirs] dist by simp
qed

theorem one_missing_item_per_run_witness:
  "fst (check_required_files_in_directory os_two_runs ''p'' ''signal'')
     = [''run_01/unweighted_events.lhe'', ''run_02/unweighted_events.lhe'']
   \<and> distinct (fst (check_required_files_in_directory os_two_runs ''p'' ''signal''))"
proof -
  let ?rs = "[''p/Events/run_01'', ''p/Events/run_02'']"
  have ev: "exists os_two_runs (join ''p'' ''Events'')"
    by (simp add: os_two_runs_def example_simps)
  have rd: "glob os_two_runs (join (join ''p'' ''Events'') ''run_*'') = ?rs"
    by (simp add: os_two_runs_def example_simps)
  have miss: "?rs \<noteq> [] \<and> (\<forall>r \<in> set ?rs. \<not> exists os_two_runs (join r ''unweighted_events.lhe''))"
    by (simp add: os_two_runs_def example_simps)
  from one_missing_item_per_run [OF ev rd, of "''signal''", THEN conjunct2, THEN mp, OF miss]
  show ?thesis
    by (simp add: basename_def)
qed

text \<open>
  C6: provided \<open>glob\<close> answers with entries of the directory it is asked about, a
  \<open>signal_supp_*\<close> directory \<open>s\<close> of the signal root is not among the discovered
  process directories, all its \<open>morphing_basis_vector_*\<close> entries are, the
  discovered list is the exact \<open>signal_sm\<close> directory, the \<open>signal_sm_*\<close> entries and
  the \<open>morphing_basis_vector_*\<close> entries of all \<open>signal_supp_*\<close> directories in
  order, and each such entry \<open>p\<close> of \<open>s\<close> is reported under the display name
  \<open><name of s>/<name of p>\<close>.
\<close>

theorem signal_supp_expansion:
  assumes sm: "glob_entries os mg ''signal_sm_''"
    and supp: "glob_entries os mg ''signal_supp_''"
    and morph: "\<forall>s \<in> set (glob os (join mg ''signal_supp_*'')). glob_entries os s ''morphing_basis_vector_''"
    and s: "s \<in> set (glob os (join mg ''signal_supp_*''))"
    and found: "fst (check_signal_directories os mg) = Some signal_dirs"
  shows "s \<notin> set signal_dirs
     \<and> signal_dirs =
         (if exists os (join mg ''signal_sm'') then [join mg ''signal_sm''] else [])
         @ glob os (join mg ''signal_sm_*'')
         @ concat (map (\<lambda>s. glob os (join s ''morphing_basis_vector_*''))
                       (glob os (join mg ''signal_supp_*'')))
     \<and> set (glob os (join s ''morphing_basis_vector_*'')) \<subseteq> set signal_dirs
     \<and> (\<forall>p \<in> set (glob os (join s ''morphing_basis_vector_*'')).
           signal_process_name p = basename s @ ''/'' @ basename p
           \<and> ((Cross, '' '' @ basename s @ ''/'' @ basename p @ '': Missing files:'')
                  \<in> set (snd (check_all_processes os signal_dirs background_dirs))
               \<or> (Check, '' '' @ basename s @ ''/'' @ basename p @ '': All required files present'')
                  \<in> set (snd (check_all_processes os signal_dirs background_dirs))))"
proof -
  have dirs: "signal_dirs =
         (if exists os (join mg ''signal_sm'') then [join mg ''signal_sm''] else [])
         @ glob os (join mg ''signal_sm_*'')
         @ concat (map (\<lambda>s. glob os (join s ''morphing_basis_vector_*''))
                       (glob os (join mg ''signal_supp_*'')))"
    using found by (simp add: fst_check_signal_directories Let_def split: if_splits)
  obtain n where n: "s = join mg n" "prefix ''signal_supp_'' n" "CHR ''/'' \<notin> set n"
    using glob_entriesD [OF supp, of s] s by auto
  have n': "\<not> prefix ''signal_sm_'' n" "n \<noteq> ''signal_sm''" "n \<noteq> []"
    using not_prefix_supp_sm [OF n(2)] by simp_all
  have a: "s \<noteq> join mg ''signal_sm''"
    using n(1,3) n'(2) by (simp add: join_inject)
  have b: "s \<notin> set (glob os (join mg ''signal_sm_*''))"
  proof
    assume "s \<in> set (glob os (join mg ''signal_sm_*''))"
    then obtain k where k: "s = join mg k" "prefix ''signal_sm_'' k" "CHR ''/'' \<notin> set k"
      using glob_entriesD [OF sm, of s] by auto
    with n(1,3) have "k = n" by (simp add: join_inject)
    with k(2) n'(1) show False by simp
  qed
  have c: "s \<notin> set (glob os (join s' ''morphing_basis_vector_*''))"
    if s': "s' \<in> set (glob os (join mg ''signal_supp_*''))" for s'
  proof
    assume in_s': "s \<in> set (glob os (join s' ''morphing_basis_vector_*''))"
    obtain k where k: "s' = join mg k" "prefix ''signal_supp_'' k" "CHR ''/'' \<notin> set k"
      using glob_entriesD [OF supp, of s'] s' by auto
    have "glob_entries os s' ''morphing_basis_vector_''"
      using morph s' by blast
    then obtain m where m: "s = join s' m" "CHR ''/'' \<notin> set m"
      using glob_entriesD [of os s' "''morphing_basis_vector_''" s] in_s' by auto
    have "k \<noteq> []"
      using not_prefix_supp_sm [OF k(2)] by simp
    then have "join (join mg k) m \<noteq> join mg n"
      using n(3) k(3) m(2) by (simp add: join_join_neq)
    with m(1) k(1) n(1) show False by simp
  qed
  have notin: "s \<notin> set signal_dirs"
    using a b c by (auto simp add: dirs)
  have sub: "set (glob os (join s ''morphing_basis_vector_*'')) \<subseteq> set signal_dirs"
    using s by (auto simp add: dirs)
  have names: "signal_process_name p = basename s @ ''/'' @ basename p"
    if p: "p \<in> set (glob os (join s ''morphing_basis_vector_*''))" for p
  proof -
    have "glob_entries os s ''morphing_basis_vector_''"
      using morph s by blast
    then obtain m where m: "p = join s m" "prefix ''morphing_basis_vector_'' m" "CHR ''/'' \<notin> set m"
      using glob_entriesD [of os s "''morphing_basis_vector_''" p] p by auto
    have "signal_process_name (join (join mg n) m) = n @ ''/'' @ m"
      using n'(3) n(3) m(2,3) by (rule signal_process_name_morphing)
    moreover have "basename s = n"
      using n(1,3) by (simp add: basename_join)
    moreover have "basename p = m"
      using m(1,3) by (simp add: basename_join)
    ultimately show ?thesis
      using m(1) n(1) by simp
  qed
  have lines: "(Cross, '' '' @ basename s @ ''/'' @ basename p @ '': Missing files:'')
                  \<in> set (snd (check_all_processes os signal_dirs background_dirs))
               \<or> (Check, '' '' @ basename s @ ''/'' @ basename p @ '': All required files present'')
                  \<in> set (snd (check_all_processes os signal_dirs background_dirs))"
    if p: "p \<in> set (glob os (join s ''morphing_basis_vector_*''))" for p
  proof -
    have "p \<in> set signal_dirs"
      using sub p by blast
    from check_all_processes_names [OF this, of os background_dirs] names [OF p]
    show ?thesis by simp
  qed
  show ?thesis
    using notin dirs sub names lines by blast
qed

theorem signal_supp_expansion_witness:
  "fst (check_signal_directories os_supp ''./02_mg_processes'')
     = Some [''./02_mg_processes/signal_supp_A/morphing_basis_vector_1'',
             ''./02_mg_processes/signal_supp_A/morphing_basis_vector_2'']
   \<and> ''./02_mg_processes/signal_supp_A''
        \<notin> set [''./02_mg_processes/signal_supp_A/morphing_basis_vector_1'',
                ''./02_mg_processes/signal_supp_A/morphing_basis_vector_2'']
   \<and> signal_process_name ''./02_mg_processes/signal_supp_A/morphing_basis_vector_1''
        = ''signal_supp_A/morphing_basis_vector_1''
   \<and> signal_process_name ''./02_mg_processes/signal_supp_A/morphing_basis_vector_2''
        = ''signal_supp_A/morphing_basis_vector_2''"
proof -
  let ?mg = "''./02_mg_processes''"
  let ?A = "''./02_mg_processes/signal_supp_A''"
  let ?m1 = "''./02_mg_processes/signal_supp_A/morphing_basis_vector_1''"
  let ?m2 = "''./02_mg_processes/signal_supp_A/morphing_basis_vector_2''"
  have g_supp: "glob os_supp (join ?mg ''signal_supp_*'') = [?A]"
    by (simp add: os_supp_def example_simps)
  have g_morph: "glob os_supp (join ?A ''morphing_basis_vector_*'') = [?m1, ?m2]"
    by (simp add: os_supp_def example_simps)
  have sm: "glob_entries os_supp ?mg ''signal_sm_''"
    by (simp add: glob_entries_def os_supp_def example_simps)
  have "\<exists>n. ?A = join ?mg n \<and> prefix ''signal_supp_'' n \<and> CHR ''/'' \<notin> set n"
    by (rule exI [of _ "''signal_supp_A''"]) (simp add: join_def suffix_slash_iff)
  then have supp: "glob_entries os_supp ?mg ''signal_supp_''"
    using g_supp by (simp add: glob_entries_def)
  have "\<exists>n. ?m1 = join ?A n \<and> prefix ''morphing_basis_vector_'' n \<and> CHR ''/'' \<notin> set n"
    by (rule exI [of _ "''morphing_basis_vector_1''"]) (simp add: join_def suffix_slash_iff)
  moreover have "\<exists>n. ?m2 = join ?A n \<and> prefix ''morphing_basis_vector_'' n \<and> CHR ''/'' \<notin> set n"
    by (rule exI [of _ "''morphing_basis_vector_2''"]) (simp add: join_def suffix_slash_iff)
  ultimately have "glob_entries os_supp ?A ''morphing_basis_vector_''"
    using g_morph by (simp add: glob_entries_def)
  then have morph: "\<forall>s \<in> set (glob os_supp (join ?mg ''signal_supp_*'')).
                      glob_entries os_supp s ''morphing_basis_vector_''"
    by (simp add: g_supp)
  have s: "?A \<in> set (glob os_supp (join ?mg ''signal_supp_*''))"
    by (simp add: g_supp)
  have found: "fst (check_signal_directories os_supp ?mg) = Some [?m1, ?m2]"
    by (simp add: fst_check_signal_directories os_supp_def example_simps)
  have b1: "basename ?A = ''signal_supp_A''" "basename ?m1 = ''morphing_basis_vector_1''"
    "basename ?m2 = ''morphing_basis_vector_2''"
    by (simp_all add: basename_def)
  note expansion = signal_supp_expansion [OF sm supp morph s found, of "[]"]
  from expansion have not_leaf: "?A \<notin> set [?m1, ?m2]"
    by (rule conjunct1)
  from expansion have "\<forall>p \<in> set (glob os_supp (join ?A ''morphing_basis_vector_*'')).
                         signal_process_name p = basename ?A @ ''/'' @ basename p"
    by blast
  then have "signal_process_name ?m1 = ''signal_supp_A/morphing_basis_vector_1''
           \<and> signal_process_name ?m2 = ''signal_supp_A/morphing_basis_vector_2''"
    by (simp add: g_morph b1)
  with found not_leaf show ?thesis
    by blast
qed

text \<open>
  C7: when the signal root \<open>02_mg_processes\<close> does not exist under the base
  directory, or discovery finds no signal process directory, \<open>main\<close> returns 1, the
  last line printed is an error line, and the banner that \<open>check_all_processes\<close>
  always prints first is not in the output: no process directory was checked.
\<close>

theorem fatal_without_signal_directories:
  assumes "\<not> exists os (join base_dir ''02_mg_processes'')
           \<or> fst (check_signal_directories os (join base_dir ''02_mg_processes'')) = None"
  shows "fst (main os base_dir loaded) = Inr 1
     \<and> exit_status (fst (main os base_dir loaded)) \<noteq> 0
     \<and> fst (last (snd (main os base_dir loaded))) = Cross
     \<and> plain ''CHECKING REQUIRED FILES IN ALL PROCESSES'' \<notin> set (snd (main os base_dir loaded))
     \<and> plain ''CHECKING REQUIRED FILES IN ALL PROCESSES''
          \<in> set (snd (check_all_processes os signal_dirs background_dirs))"
proof -
  let ?B = "plain ''CHECKING REQUIRED FILES IN ALL PROCESSES''"
  have fatal: "main os base_dir loaded = (Inr 1, snd (main os base_dir loaded))
        \<and> fst (last (snd (main os base_dir loaded))) = Cross
        \<and> ?B \<notin> set (snd (main os base_dir loaded))"
  proof (cases loaded)
    case (Inl e)
    then show ?thesis
      by (simp add: main_def plain_def)
  next
    case (Inr workflow)
    show ?thesis
    proof (cases "fst (check_directory_structure os base_dir workflow)")
      case False
      from main_structure_failed [OF False] validation_banner_not_in_structure [of os base_dir workflow]
      show ?thesis
        by (simp add: Inr plain_def)
    next
      case True
      then have "exists os (join base_dir ''02_mg_processes'')"
        by (simp add: fst_check_directory_structure)
      with assms have "fst (check_signal_directories os (join base_dir ''02_mg_processes'')) = None"
        by simp
      from main_no_signal [OF True this] validation_banner_not_in_structure [of os base_dir workflow]
        validation_banner_not_in_discovery [of os "join base_dir ''02_mg_processes''"]
      show ?thesis
        by (simp add: Inr plain_def)
    qed
  qed
  then have "fst (main os base_dir loaded) = Inr 1"
    by (metis fst_conv)
  with fatal check_all_processes_banner [of os signal_dirs background_dirs] show ?thesis
    by (simp add: exit_status_def)
qed

theorem fatal_without_signal_directories_witness:
  "fst (main os_bare ''.'' (Inr workflow_ok)) = Inr 1
   \<and> fst (main os_empty_root ''.'' (Inr workflow_ok)) = Inr 1
   \<and> exists os_empty_root (join ''.'' ''02_mg_processes'')"
proof -
  have a: "\<not> exists os_bare (join ''.'' ''02_mg_processes'')"
    by (simp add: os_bare_def example_simps)
  have b: "fst (check_signal_directories os_empty_root (join ''.'' ''02_mg_processes'')) = None"
    by (simp add: example_fst_simps os_empty_root_def example_simps)
  have c: "exists os_empty_root (join ''.'' ''02_mg_processes'')"
    by (simp add: os_empty_root_def example_simps)
  from a have "fst (main os_bare ''.'' (Inr workflow_ok)) = Inr 1"
    using fatal_without_signal_directories [of os_bare "''.''" "Inr workflow_ok"] by blast
  moreover from b have "fst (main os_empty_root ''.'' (Inr workflow_ok)) = Inr 1"
    using fatal_without_signal_directories [of os_empty_root "''.''" "Inr workflow_ok"] by blast
  ultimately show ?thesis
    using c by blast
qed

text \<open>
  C8: when the background root \<open>02_mg_processes_2\<close> does not exist, background
  discovery returns no directory and prints a warning line; the directory structure
  check does not depend on it; and a run that passed the structure check and found
  signal directories goes on: its result is that of \<open>check_all_processes\<close> on the
  signal directories alone and of the downstream-structure check, and its output holds
  the warning and the banners of both remaining checks.
\<close>

theorem background_root_absent_is_warning:
  assumes absent: "\<not> exists os (join base_dir ''02_mg_processes_2'')"
  shows "check_background_directories os (join base_dir ''02_mg_processes_2'') =
           ([], banner ''CHECKING BACKGROUND DIRECTORIES''
                @ [(Warning, ''  Background base directory does not exist yet: ''
                             @ join base_dir ''02_mg_processes_2'')])
     \<and> (fst (check_directory_structure os base_dir workflow) \<longleftrightarrow>
          exists os base_dir \<and> exists os (join base_dir ''02_mg_processes''))
     \<and> (exists os base_dir \<and> exists os (join base_dir ''02_mg_processes'')
          \<and> fst (check_signal_directories os (join base_dir ''02_mg_processes'')) = Some signal_dirs \<longrightarrow>
          fst (main os base_dir (Inr workflow)) =
            (case fst (check_expected_structure_for_delphes os workflow) of
               Inl e \<Rightarrow> Inl e
             | Inr ok \<Rightarrow> Inr (if fst (check_all_processes os signal_dirs []) \<and> ok then 0 else 1))
          \<and> (Warning, ''  Background base directory does not exist yet: ''
                       @ join base_dir ''02_mg_processes_2'') \<in> set (snd (main os base_dir (Inr workflow)))
          \<and> plain ''CHECKING REQUIRED FILES IN ALL PROCESSES'' \<in> set (snd (main os base_dir (Inr workflow)))
          \<and> plain ''CHECKING EXPECTED STRUCTURE FOR DELPHES SCRIPT''
               \<in> set (snd (main os base_dir (Inr workflow))))"
proof (intro conjI impI)
  show bg: "check_background_directories os (join base_dir ''02_mg_processes_2'') =
           ([], banner ''CHECKING BACKGROUND DIRECTORIES''
                @ [(Warning, ''  Background base directory does not exist yet: ''
                             @ join base_dir ''02_mg_processes_2'')])"
    using absent by (simp add: check_background_directories_def)
  show "fst (check_directory_structure os base_dir workflow) \<longleftrightarrow>
          exists os base_dir \<and> exists os (join base_dir ''02_mg_processes'')"
    by (rule fst_check_directory_structure)
  assume reached: "exists os base_dir \<and> exists os (join base_dir ''02_mg_processes'')
          \<and> fst (check_signal_directories os (join base_dir ''02_mg_processes'')) = Some signal_dirs"
  then have ok: "fst (check_directory_structure os base_dir workflow)"
    and found: "fst (check_signal_directories os (join base_dir ''02_mg_processes'')) = Some signal_dirs"
    by (simp_all add: fst_check_directory_structure)
  show "fst (main os base_dir (Inr workflow)) =
            (case fst (check_expected_structure_for_delphes os workflow) of
               Inl e \<Rightarrow> Inl e
             | Inr ok \<Rightarrow> Inr (if fst (check_all_processes os signal_dirs []) \<and> ok then 0 else 1))"
    using ok found by (simp add: fst_main bg split: sum.splits)
  obtain rest where out: "snd (main os base_dir (Inr workflow)) =
           [(Check, '' Workflow configuration loaded successfully'')]
           @ snd (check_directory_structure os base_dir workflow)
           @ snd (check_signal_directories os (join base_dir ''02_mg_processes''))
           @ snd (check_background_directories os (join base_dir ''02_mg_processes_2''))
           @ snd (check_all_processes os signal_dirs
                    (fst (check_background_directories os (join base_dir ''02_mg_processes_2''))))
           @ snd (check_expected_structure_for_delphes os workflow)
           @ rest"
    using snd_main_reached [OF ok found] by blast
  show "(Warning, ''  Background base directory does not exist yet: ''
                       @ join base_dir ''02_mg_processes_2'') \<in> set (snd (main os base_dir (Inr workflow)))"
    by (simp add: out bg)
  show "plain ''CHECKING REQUIRED FILES IN ALL PROCESSES'' \<in> set (snd (main os base_dir (Inr workflow)))"
    using check_all_processes_banner [of os signal_dirs
            "fst (check_background_directories os (join base_dir ''02_mg_processes_2''))"]
    by (simp add: out)
  show "plain ''CHECKING EXPECTED STRUCTURE FOR DELPHES SCRIPT''
               \<in> set (snd (main os base_dir (Inr workflow)))"
    using check_expected_structure_for_delphes_banner [of os workflow]
    by (simp add: out)
qed

theorem background_root_absent_is_warning_witness:
  "\<not> exists os_signal_only (join ''.'' ''02_mg_processes_2'')
   \<and> fst (check_background_directories os_signal_only (join ''.'' ''02_mg_processes_2'')) = []
   \<and> fst (main os_signal_only ''.'' (Inr workflow_ok)) = Inr 0"
proof -
  let ?sm = "''./02_mg_processes/signal_sm''"
  have absent: "\<not> exists os_signal_only (join ''.'' ''02_mg_processes_2'')"
    by (simp add: os_signal_only_def example_simps)
  have reached: "exists os_signal_only ''.'' \<and> exists os_signal_only (join ''.'' ''02_mg_processes'')
      \<and> fst (check_signal_directories os_signal_only (join ''.'' ''02_mg_processes'')) = Some [?sm]"
    by (simp add: example_fst_simps os_signal_only_def example_simps)
  have files: "fst (check_all_processes os_signal_only [?sm] [])"
    by (simp add: check_all_processes_verdict example_fst_simps os_signal_only_def example_simps)
  have delphes: "fst (check_expected_structure_for_delphes os_signal_only workflow_ok) = Inr True"
    by (simp add: example_fst_simps os_signal_only_def example_simps workflow_ok_def)
  note w = background_root_absent_is_warning [OF absent, of workflow_ok "[?sm]"]
  from w have "fst (check_background_directories os_signal_only (join ''.'' ''02_mg_processes_2'')) = []"
    by simp
  moreover from w reached have "fst (main os_signal_only ''.'' (Inr workflow_ok)) =
            (case fst (check_expected_structure_for_delphes os_signal_only workflow_ok) of
               Inl e \<Rightarrow> Inl e
             | Inr ok \<Rightarrow> Inr (if fst (check_all_processes os_signal_only [?sm] []) \<and> ok then 0 else 1))"
    by blast
  ultimately show ?thesis
    using absent files delphes by simp
qed

text \<open>
  C9: no missing item is \<open><run>/<optional file>\<close>; the missing items do not change when
  the file system changes only in which optional files exist; and everything the
  per-directory check prints is a line reporting an optional file that exists.
\<close>

theorem optional_files_never_missing:
  "(\<forall>x \<in> set (fst (check_required_files_in_directory os d t)).
       \<forall>f \<in> set optional_files. \<not> suffix (''/'' @ f) x)
   \<and> (glob os' = glob os
        \<and> (\<forall>p. (\<forall>r. \<forall>f \<in> set optional_files. p \<noteq> join r f) \<longrightarrow> stat os' p = stat os p) \<longrightarrow>
      fst (check_required_files_in_directory os' d t) = fst (check_required_files_in_directory os d t))
   \<and> (\<forall>l \<in> set (snd (check_required_files_in_directory os d t)).
       \<exists>r \<in> set (glob os (join (join d ''Events'') ''run_*'')). \<exists>f \<in> set optional_files.
          exists os (join r f) \<and> l = (Check, ''   Optional file found: '' @ basename r @ ''/'' @ f))"
proof (intro conjI ballI impI)
  fix x f
  assume x: "x \<in> set (fst (check_required_files_in_directory os d t))"
    and f: "f \<in> set optional_files"
  have "last x \<in> {CHR ''/'', CHR ''*'', CHR ''e''}"
    using set_fst_check_required [OF x] by auto
  moreover have "last (''/'' @ f) \<in> {CHR ''z'', CHR ''t''}"
    using f by (auto simp add: optional_files_def)
  moreover have "last x = last (''/'' @ f)" if "suffix (''/'' @ f) x"
    using that by (auto simp add: suffix_def)
  ultimately show "\<not> suffix (''/'' @ f) x"
    by auto
next
  assume a: "glob os' = glob os
        \<and> (\<forall>p. (\<forall>r. \<forall>f \<in> set optional_files. p \<noteq> join r f) \<longrightarrow> stat os' p = stat os p)"
  have same: "stat os' p = stat os p" if "last p \<notin> {CHR ''z'', CHR ''t''}" for p
    using a that last_join_optional by metis
  have ev: "exists os' (join d ''Events'') = exists os (join d ''Events'')"
    using same [of "join d ''Events''"] by (simp add: exists_def last_join_events)
  have req: "exists os' (join r ''unweighted_events.lhe'') = exists os (join r ''unweighted_events.lhe'')" for r
    using same [of "join r ''unweighted_events.lhe''"] by (simp add: exists_def last_join_required)
  show "fst (check_required_files_in_directory os' d t) = fst (check_required_files_in_directory os d t)"
    using a by (simp add: fst_check_required fst_check_run ev req)
next
  fix l
  assume "l \<in> set (snd (check_required_files_in_directory os d t))"
  then show "\<exists>r \<in> set (glob os (join (join d ''Events'') ''run_*'')). \<exists>f \<in> set optional_files.
          exists os (join r f) \<and> l = (Check, ''   Optional file found: '' @ basename r @ ''/'' @ f)"
    by (rule set_snd_check_required)
qed

theorem optional_files_never_missing_witness:
  "fst (check_required_files_in_directory os_two_runs_bare ''p'' ''signal'')
     = fst (check_required_files_in_directory os_two_runs ''p'' ''signal'')
   \<and> stat os_two_runs_bare ''p/Events/run_02/unweighted_events.lhe.gz'' = NoEntry
   \<and> stat os_two_runs ''p/Events/run_02/unweighted_events.lhe.gz'' = StatOk"
proof -
  have g: "glob os_two_runs_bare = glob os_two_runs"
    by (simp add: os_two_runs_def os_two_runs_bare_def example_os_def)
  have j: "''p/Events/run_02/unweighted_events.lhe.gz'' = join ''p/Events/run_02'' ''unweighted_events.lhe.gz''"
    by (simp add: join_def suffix_slash_iff)
  have "''unweighted_events.lhe.gz'' \<in> set optional_files"
    by (simp add: optional_files_def)
  with j have s: "\<forall>p. (\<forall>r. \<forall>f \<in> set optional_files. p \<noteq> join r f) \<longrightarrow>
                     stat os_two_runs_bare p = stat os_two_runs p"
    by (auto simp add: os_two_runs_def os_two_runs_bare_def example_os_def)
  from optional_files_never_missing [of os_two_runs "''p''" "''signal''" os_two_runs_bare] g s
  have "fst (check_required_files_in_directory os_two_runs_bare ''p'' ''signal'')
     = fst (check_required_files_in_directory os_two_runs ''p'' ''signal'')"
    by blast
  then show ?thesis
    by (simp add: os_two_runs_def os_two_runs_bare_def example_os_def)
qed

text \<open>
  C10: the list of missing items computed for a process directory (and the printed
  output) is the same whatever the \<open>process_type\<close> argument is; in particular for
  \<open>''signal''\<close> and \<open>''background''\<close>.
\<close>

theorem process_type_never_consulted:
  "fst (check_required_files_in_directory os process_dir ''signal'') =
   fst (check_required_files_in_directory os process_dir ''background'')
   \<and> check_required_files_in_directory os process_dir t1 =
     check_required_files_in_directory os process_dir t2"
  by (simp add: check_required_files_in_directory_def)

end
